theory Spec2Isabelle
  imports Main "HOL-Library.Word"
begin

unbundle bit_operations_syntax

section \<open>JavaScript values used by \<open>src/utils/userUtils.ts\<close>\<close>

text \<open>
  A JavaScript string is a sequence of 16-bit code units; \<open>charCodeAt\<close> reads one of
  them. The literals of the source are ASCII and are embedded with \<open>js\<close>.
\<close>

type_synonym jschar = "16 word"
type_synonym jsstring = "jschar list"

definition js :: "string \<Rightarrow> jsstring" where
  "js s = map (\<lambda>c. of_nat (of_char c)) s"

text \<open>
  The numbers of the hash loop are integers (every intermediate value is far below
  \<open>2 ^ 53\<close>, so the double arithmetic is exact: see \<open>hash_step_exact\<close>). The bitwise
  operators first convert their operands with ToInt32.
\<close>

definition ToInt32 :: "int \<Rightarrow> int" where
  "ToInt32 x = (let int32bit = x mod 2 ^ 32
                in if int32bit \<ge> 2 ^ 31 then int32bit - 2 ^ 32 else int32bit)"

definition js_shl :: "int \<Rightarrow> nat \<Rightarrow> int" where
  \<comment> \<open>\<open>x << n\<close>\<close>
  "js_shl x n = ToInt32 (ToInt32 x * 2 ^ (n mod 32))"

definition js_bitand :: "int \<Rightarrow> int \<Rightarrow> int" where
  \<comment> \<open>\<open>x & y\<close>\<close>
  "js_bitand x y = ToInt32 x AND ToInt32 y"

definition hexDigit :: "nat \<Rightarrow> jschar" where
  "hexDigit d = js ''0123456789abcdef'' ! d"

fun toString16 :: "nat \<Rightarrow> jsstring" where
  \<comment> \<open>\<open>n.toString(16)\<close> for a non-negative integer: lowercase digits, no leading zero\<close>
  "toString16 n = (if n < 16 then [hexDigit n]
                   else toString16 (n div 16) @ [hexDigit (n mod 16)])"

declare toString16.simps [simp del]

definition padStart :: "nat \<Rightarrow> jschar \<Rightarrow> jsstring \<Rightarrow> jsstring" where
  \<comment> \<open>\<open>s.padStart(n, c)\<close> with a one-character filler\<close>
  "padStart n c s = replicate (n - length s) c @ s"

definition padEnd :: "nat \<Rightarrow> jschar \<Rightarrow> jsstring \<Rightarrow> jsstring" where
  \<comment> \<open>\<open>s.padEnd(n, c)\<close> with a one-character filler\<close>
  "padEnd n c s = s @ replicate (n - length s) c"

definition slice :: "jsstring \<Rightarrow> nat \<Rightarrow> nat \<Rightarrow> jsstring" where
  \<comment> \<open>\<open>s.slice(a, b)\<close> with non-negative indices: both are clipped to the length\<close>
  "slice s a b = drop a (take b s)"

section \<open>The identity mapper: \<open>generateConsistentUUID\<close>\<close>

definition NAMESPACE_UUID :: jsstring where
  "NAMESPACE_UUID = js ''1b671a64-40d5-491e-99b0-da01ff1f3341''"

definition hash_step :: "jschar \<Rightarrow> int \<Rightarrow> int" where
  \<comment> \<open>one iteration of the loop: \<open>hash = ((hash << 5) - hash) + char; hash = hash & hash\<close>\<close>
  "hash_step char hash =
     (let hash1 = (js_shl hash 5 - hash) + uint char
      in js_bitand hash1 hash1)"

definition hash_loop :: "jsstring \<Rightarrow> int" where
  \<comment> \<open>\<open>let hash = 0; for (i = 0; i < input.length; i++) ...\<close>\<close>
  "hash_loop input = fold hash_step input 0"

definition format_uuid :: "jsstring \<Rightarrow> jsstring" where
  \<comment> \<open>the template literal of the return statement\<close>
  "format_uuid hex =
     slice hex 0 8 @ js ''-'' @ slice hex 0 4 @ js ''-4'' @ slice hex 1 4 @ js ''-a'' @
     slice hex 0 3 @ js ''-'' @ padEnd 12 (of_nat (of_char CHR ''0'')) (slice hex 0 12)"

text \<open>What a \<open>try\<close> block can catch: a rejected promise of the client, or a \<open>TypeError\<close>.\<close>

datatype exn = Rejected | TypeError

definition generateConsistentUUID_try :: "jsstring \<Rightarrow> exn + jsstring" where
  \<comment> \<open>the body of the \<open>try\<close> block; none of its operations has a throwing case\<close>
  "generateConsistentUUID_try userId =
     (let input = userId @ NAMESPACE_UUID;
          hash = hash_loop input;
          hex = padStart 8 (of_nat (of_char CHR ''0'')) (toString16 (nat \<bar>hash\<bar>))
      in Inr (format_uuid hex))"

definition generateConsistentUUID :: "jsstring \<Rightarrow> jsstring \<Rightarrow> jsstring" where
  \<comment> \<open>the first argument is what \<open>crypto.randomUUID()\<close> would return in the \<open>catch\<close> handler\<close>
  "generateConsistentUUID randomUUID userId =
     (case generateConsistentUUID_try userId of
        Inr uuid \<Rightarrow> uuid
      | Inl err \<Rightarrow> randomUUID)"

section \<open>The format validator: \<open>validateUUID\<close>\<close>

text \<open>
  The regular expression is a fixed sequence of character classes between \<open>^\<close> and \<open>$\<close>,
  so it is a list of classes, and \<open>test\<close> checks the string against it position by
  position. With the \<open>i\<close> flag two code units match when they canonicalise to the same
  one; a code unit outside ASCII never canonicalises to an ASCII one, and every class
  of this expression is ASCII, so only the ASCII letters need to be folded.
\<close>

definition canonicalize :: "jschar \<Rightarrow> jschar" where
  "canonicalize ch = (if 97 \<le> ch \<and> ch \<le> 122 then ch - 32 else ch)"

definition class_i :: "string \<Rightarrow> jschar \<Rightarrow> bool" where
  \<comment> \<open>a character class, given by its members, under the \<open>i\<close> flag\<close>
  "class_i members ch = (canonicalize ch \<in> set (map canonicalize (js members)))"

definition hex_class :: "jschar \<Rightarrow> bool" where
  \<comment> \<open>\<open>[0-9a-f]\<close>\<close>
  "hex_class = class_i ''0123456789abcdef''"

definition uuidRegex :: "(jschar \<Rightarrow> bool) list" where
  "uuidRegex =
     replicate 8 hex_class @ [class_i ''-''] @
     replicate 4 hex_class @ [class_i ''-''] @
     [class_i ''12345''] @ replicate 3 hex_class @ [class_i ''-''] @
     [class_i ''89ab''] @ replicate 3 hex_class @ [class_i ''-''] @
     replicate 12 hex_class"

definition regex_test :: "(jschar \<Rightarrow> bool) list \<Rightarrow> jsstring \<Rightarrow> bool" where
  "regex_test re s = list_all2 (\<lambda>cls ch. cls ch) re s"

definition validateUUID :: "jsstring \<Rightarrow> bool" where
  "validateUUID uuid = regex_test uuidRegex uuid"

section \<open>The Supabase client, as the resolver uses it\<close>

text \<open>
  Awaiting a query either throws (the promise is rejected) or yields a response object
  with the fields \<open>data\<close> and \<open>error\<close>, each of them possibly \<open>null\<close>. The client
  is a collaborator of the resolver: its four queries are parameters, and each one may
  change the state of the store.
\<close>

datatype PostgrestError = PostgrestError jsstring

record 'a PostgrestResponse =
  data :: "'a option"
  error :: "PostgrestError option"

datatype row = Row (row_id: jsstring)
  \<comment> \<open>the object \<open>{ id }\<close> that \<open>.select('id')\<close> yields\<close>

record profile =
  profile_id :: jsstring
  full_name :: jsstring
  email :: jsstring
  role :: jsstring
  auth_provider :: jsstring

type_synonym ('a, 's) awaited = "'s \<Rightarrow> (exn + 'a PostgrestResponse) \<times> 's"

record 's SupabaseClient =
  select_id_eq_id :: "jsstring \<Rightarrow> (row, 's) awaited"
    \<comment> \<open>\<open>from('profiles').select('id').eq('id', x).maybeSingle()\<close>\<close>
  select_id_eq_email :: "jsstring \<Rightarrow> (row, 's) awaited"
    \<comment> \<open>\<open>from('profiles').select('id').eq('email', x).maybeSingle()\<close>\<close>
  rpc_get_or_create_user_profile ::
    "jsstring \<Rightarrow> jsstring \<Rightarrow> jsstring \<Rightarrow> jsstring \<Rightarrow> (jsstring, 's) awaited"
    \<comment> \<open>\<open>rpc('get_or_create_user_profile', { clerk_user_id, full_name, user_email, user_role })\<close>\<close>
  insert_select_id :: "profile \<Rightarrow> (row, 's) awaited"
    \<comment> \<open>\<open>from('profiles').insert(p).select('id').single()\<close>\<close>

section \<open>The profile resolver: \<open>getOrCreateUserProfile\<close>\<close>

text \<open>
  The body of the first \<open>try\<close> block. \<open>Inr (Some id)\<close> is a \<open>return id\<close> inside the
  block, \<open>Inr None\<close> is falling out of it, \<open>Inl\<close> is a throw (which skips the rest of
  the block, so a by-id lookup that throws skips the by-email lookup).
\<close>

definition lookup_try ::
  "'s SupabaseClient \<Rightarrow> jsstring \<Rightarrow> jsstring \<Rightarrow> 's \<Rightarrow> (exn + jsstring option) \<times> 's" where
  "lookup_try supabase supabaseUserId userEmail s =
     (case select_id_eq_id supabase supabaseUserId s of
        (Inl err, s1) \<Rightarrow> (Inl err, s1)
      | (Inr response, s1) \<Rightarrow>
          (case data response of
             Some existingProfile \<Rightarrow> (Inr (Some (row_id existingProfile)), s1)
           | None \<Rightarrow>
               (case select_id_eq_email supabase userEmail s1 of
                  (Inl err, s2) \<Rightarrow> (Inl err, s2)
                | (Inr response2, s2) \<Rightarrow>
                    (case data response2 of
                       Some emailProfile \<Rightarrow> (Inr (Some (row_id emailProfile)), s2)
                     | None \<Rightarrow> (Inr None, s2)))))"

text \<open>
  The inner \<open>try\<close> block (the direct insert). Reading \<open>insertData.id\<close> when
  \<open>insertData\<close> is \<open>null\<close> throws a \<open>TypeError\<close>.
\<close>

definition insert_try ::
  "'s SupabaseClient \<Rightarrow> jsstring \<Rightarrow> jsstring \<Rightarrow> jsstring \<Rightarrow> jsstring \<Rightarrow> 's \<Rightarrow>
     (exn + jsstring) \<times> 's" where
  "insert_try supabase supabaseUserId fullName userEmail userRole s =
     (case insert_select_id supabase
             \<lparr>profile_id = supabaseUserId, full_name = fullName, email = userEmail,
              role = userRole, auth_provider = js ''clerk''\<rparr> s of
        (Inl err, s1) \<Rightarrow> (Inl err, s1)
      | (Inr response, s1) \<Rightarrow>
          (case error response of
             Some insertError \<Rightarrow> (Inr supabaseUserId, s1)
           | None \<Rightarrow>
               (case data response of
                  None \<Rightarrow> (Inl TypeError, s1)
                | Some insertData \<Rightarrow> (Inr (row_id insertData), s1))))"

text \<open>
  The second \<open>try\<close> block. Every path through it returns, and the inner \<open>catch\<close>
  returns \<open>supabaseUserId\<close>; a string is truthy when it is not empty.
\<close>

definition create_try ::
  "'s SupabaseClient \<Rightarrow> jsstring \<Rightarrow> jsstring \<Rightarrow> jsstring \<Rightarrow> jsstring \<Rightarrow> jsstring \<Rightarrow> 's \<Rightarrow>
     (exn + jsstring) \<times> 's" where
  "create_try supabase supabaseUserId clerkUserId fullName userEmail userRole s =
     (case rpc_get_or_create_user_profile supabase clerkUserId fullName userEmail userRole s of
        (Inl err, s1) \<Rightarrow> (Inl err, s1)
      | (Inr response, s1) \<Rightarrow>
          (case error response of
             Some rpcError \<Rightarrow>
               (case insert_try supabase supabaseUserId fullName userEmail userRole s1 of
                  (Inl insertErr, s2) \<Rightarrow> (Inr supabaseUserId, s2)
                | (Inr insertedId, s2) \<Rightarrow> (Inr insertedId, s2))
           | None \<Rightarrow>
               (case data response of
                  Some profileId \<Rightarrow>
                    (if profileId \<noteq> [] then (Inr profileId, s1) else (Inr supabaseUserId, s1))
                | None \<Rightarrow> (Inr supabaseUserId, s1))))"

definition create_try_catch ::
  "'s SupabaseClient \<Rightarrow> jsstring \<Rightarrow> jsstring \<Rightarrow> jsstring \<Rightarrow> jsstring \<Rightarrow> jsstring \<Rightarrow> 's \<Rightarrow>
     (exn + jsstring) \<times> 's" where
  "create_try_catch supabase supabaseUserId clerkUserId fullName userEmail userRole s =
     (case create_try supabase supabaseUserId clerkUserId fullName userEmail userRole s of
        (Inl err, s1) \<Rightarrow> (Inr supabaseUserId, s1)
      | (Inr returned, s1) \<Rightarrow> (Inr returned, s1))"

text \<open>
  \<open>getOrCreateUserProfile\<close> of \<open>src/utils/userUtils.ts\<close>. The result is \<open>Inl\<close> if
  the promise is rejected, \<open>Inr\<close> the string it resolves to otherwise; the first
  \<open>catch\<close> only logs and goes on to the second block. The second argument is the
  random UUID of the mapper's \<open>catch\<close> handler; the role is taken as passed (its
  default \<open>'student'\<close> is filled in at the call).
\<close>

definition getOrCreateUserProfile ::
  "'s SupabaseClient \<Rightarrow> jsstring \<Rightarrow> jsstring \<Rightarrow> jsstring \<Rightarrow> jsstring \<Rightarrow> jsstring \<Rightarrow> 's \<Rightarrow>
     (exn + jsstring) \<times> 's" where
  "getOrCreateUserProfile supabase randomUUID clerkUserId fullName userEmail userRole s =
     (let supabaseUserId = generateConsistentUUID randomUUID clerkUserId
      in case lookup_try supabase supabaseUserId userEmail s of
           (Inr (Some found), s1) \<Rightarrow> (Inr found, s1)
         | (Inr None, s1) \<Rightarrow>
             create_try_catch supabase supabaseUserId clerkUserId fullName userEmail userRole s1
         | (Inl err, s1) \<Rightarrow>
             create_try_catch supabase supabaseUserId clerkUserId fullName userEmail userRole s1)"

text \<open>
  The other version of \<open>getOrCreateUserProfile\<close> in the sources (\<open>unnamed/part_000\<close>):
  the same lookups, then \<open>return supabaseUserId\<close> without any creation.
\<close>

definition getOrCreateUserProfile_part_000 ::
  "'s SupabaseClient \<Rightarrow> jsstring \<Rightarrow> jsstring \<Rightarrow> jsstring \<Rightarrow> jsstring \<Rightarrow> jsstring \<Rightarrow> 's \<Rightarrow>
     (exn + jsstring) \<times> 's" where
  "getOrCreateUserProfile_part_000 supabase randomUUID clerkUserId fullName userEmail userRole s =
     (let supabaseUserId = generateConsistentUUID randomUUID clerkUserId
      in case lookup_try supabase supabaseUserId userEmail s of
           (Inr (Some found), s1) \<Rightarrow> (Inr found, s1)
         | (Inr None, s1) \<Rightarrow> (Inr supabaseUserId, s1)
         | (Inl err, s1) \<Rightarrow> (Inr supabaseUserId, s1))"

section \<open>Properties of a client\<close>

definition failed :: "(exn + 'a PostgrestResponse) \<Rightarrow> bool" where
  \<comment> \<open>the query threw, or its response carries an error and no data\<close>
  "failed reply = (case reply of
                     Inl err \<Rightarrow> True
                   | Inr response \<Rightarrow> error response \<noteq> None \<and> data response = None)"

definition all_operations_fail :: "'s SupabaseClient \<Rightarrow> bool" where
  \<comment> \<open>the store is unreachable: every query fails, in every state, and changes nothing\<close>
  "all_operations_fail supabase =
     ((\<forall>x s. failed (fst (select_id_eq_id supabase x s)) \<and>
             snd (select_id_eq_id supabase x s) = s) \<and>
      (\<forall>x s. failed (fst (select_id_eq_email supabase x s)) \<and>
             snd (select_id_eq_email supabase x s) = s) \<and>
      (\<forall>c f e r s. failed (fst (rpc_get_or_create_user_profile supabase c f e r s)) \<and>
             snd (rpc_get_or_create_user_profile supabase c f e r s) = s) \<and>
      (\<forall>p s. failed (fst (insert_select_id supabase p s)) \<and>
             snd (insert_select_id supabase p s) = s))"

definition hands_back_valid_ids :: "'s SupabaseClient \<Rightarrow> bool" where
  \<comment> \<open>every id that a query of the store hands back passes \<open>validateUUID\<close>\<close>
  "hands_back_valid_ids supabase =
     ((\<forall>x s response s' found. select_id_eq_id supabase x s = (Inr response, s') \<longrightarrow>
          data response = Some found \<longrightarrow> validateUUID (row_id found)) \<and>
      (\<forall>x s response s' found. select_id_eq_email supabase x s = (Inr response, s') \<longrightarrow>
          data response = Some found \<longrightarrow> validateUUID (row_id found)) \<and>
      (\<forall>c f e r s response s' profileId.
          rpc_get_or_create_user_profile supabase c f e r s = (Inr response, s') \<longrightarrow>
          error response = None \<longrightarrow> data response = Some profileId \<longrightarrow> profileId \<noteq> [] \<longrightarrow>
          validateUUID profileId) \<and>
      (\<forall>p s response s' inserted. insert_select_id supabase p s = (Inr response, s') \<longrightarrow>
          error response = None \<longrightarrow> data response = Some inserted \<longrightarrow>
          validateUUID (row_id inserted)))"

definition creates_with_mapped_id :: "'s SupabaseClient \<Rightarrow> bool" where
  \<comment> \<open>the creation queries hand back no id of their own: the database function returns
      the mapped id of the Clerk id it was given, the insert the id of the row it was given\<close>
  "creates_with_mapped_id supabase =
     ((\<forall>c f e r s response s' profileId.
          rpc_get_or_create_user_profile supabase c f e r s = (Inr response, s') \<longrightarrow>
          error response = None \<longrightarrow> data response = Some profileId \<longrightarrow> profileId \<noteq> [] \<longrightarrow>
          profileId = generateConsistentUUID [] c) \<and>
      (\<forall>p s response s' inserted. insert_select_id supabase p s = (Inr response, s') \<longrightarrow>
          error response = None \<longrightarrow> data response = Some inserted \<longrightarrow>
          row_id inserted = profile_id p))"

section \<open>Test doubles of the client\<close>

text \<open>A client that answers each query with a fixed reply and has no state.\<close>

definition stub_client ::
  "(exn + row PostgrestResponse) \<Rightarrow> (exn + row PostgrestResponse) \<Rightarrow>
   (exn + jsstring PostgrestResponse) \<Rightarrow> (exn + row PostgrestResponse) \<Rightarrow> unit SupabaseClient" where
  "stub_client by_id by_email rpc ins =
     \<lparr>select_id_eq_id = (\<lambda>x s. (by_id, s)),
      select_id_eq_email = (\<lambda>x s. (by_email, s)),
      rpc_get_or_create_user_profile = (\<lambda>c f e r s. (rpc, s)),
      insert_select_id = (\<lambda>p s. (ins, s))\<rparr>"

text \<open>
  A client that finds nothing and creates nothing, and whose state is the list of the
  queries it has received, with their arguments.
\<close>

datatype query =
    SelectIdEqId jsstring
  | SelectIdEqEmail jsstring
  | Rpc jsstring jsstring jsstring jsstring
  | Insert profile

definition recording_client :: "query list SupabaseClient" where
  "recording_client =
     \<lparr>select_id_eq_id = (\<lambda>x s. (Inr \<lparr>data = None, error = None\<rparr>, s @ [SelectIdEqId x])),
      select_id_eq_email = (\<lambda>x s. (Inr \<lparr>data = None, error = None\<rparr>, s @ [SelectIdEqEmail x])),
      rpc_get_or_create_user_profile =
        (\<lambda>c f e r s. (Inr \<lparr>data = None, error = None\<rparr>, s @ [Rpc c f e r])),
      insert_select_id = (\<lambda>p s. (Inr \<lparr>data = None, error = None\<rparr>, s @ [Insert p]))\<rparr>"

section \<open>An in-memory Profile Store\<close>

text \<open>
  Modelled from the spec: the Profile Store is a remote collaborator, and the database
  function \<open>get_or_create_user_profile\<close> is not among the sources. Following sections 4.3
  and 6 of the specification, the store is a table of profile records with a point
  lookup by primary key, a point lookup by e-mail, an insert that returns the id and
  enforces the uniqueness of the primary key, and a record-creation procedure that
  either creates the record under the mapped id and returns that id, or fails, or is
  unavailable, or returns no id. \<open>maybeSingle\<close> yields the row when exactly one row
  matches, \<open>null\<close> when none does, and an error when several do; \<open>single\<close> yields
  an error unless exactly one row matches.
\<close>

type_synonym table = "profile list"

definition maybeSingle :: "row list \<Rightarrow> row PostgrestResponse" where
  \<comment> \<open>Modelled from the spec: the point lookup of section 6; the client library is not
      among the sources\<close>
  "maybeSingle rows =
     (case rows of
        [] \<Rightarrow> \<lparr>data = None, error = None\<rparr>
      | [r] \<Rightarrow> \<lparr>data = Some r, error = None\<rparr>
      | _ \<Rightarrow> \<lparr>data = None, error = Some (PostgrestError (js ''multiple rows returned''))\<rparr>)"

definition single :: "row list \<Rightarrow> row PostgrestResponse" where
  \<comment> \<open>Modelled from the spec: the insert-with-return-id of section 6 returns one row\<close>
  "single rows =
     (case rows of
        [r] \<Rightarrow> \<lparr>data = Some r, error = None\<rparr>
      | _ \<Rightarrow> \<lparr>data = None, error = Some (PostgrestError (js ''multiple (or no) rows returned''))\<rparr>)"

definition select_id :: "(profile \<Rightarrow> bool) \<Rightarrow> table \<Rightarrow> row list" where
  \<comment> \<open>Modelled from the spec: the ids of the records of the store that satisfy a condition\<close>
  "select_id cond tab = map (\<lambda>p. Row (profile_id p)) (filter cond tab)"

definition insert_row :: "profile \<Rightarrow> (row, table) awaited" where
  \<comment> \<open>Modelled from the spec: insert-with-return-id under a uniqueness constraint on the
      primary key (section 6)\<close>
  "insert_row p tab =
     (if profile_id p \<in> set (map profile_id tab)
      then (Inr \<lparr>data = None, error = Some (PostgrestError (js ''duplicate key''))\<rparr>, tab)
      else (Inr (single [Row (profile_id p)]), tab @ [p]))"

datatype rpc_mode = RpcRejects | RpcFails | RpcNoId | RpcCreates

definition get_or_create_user_profile ::
  "rpc_mode \<Rightarrow> jsstring \<Rightarrow> jsstring \<Rightarrow> jsstring \<Rightarrow> jsstring \<Rightarrow> (jsstring, table) awaited" where
  \<comment> \<open>Modelled from the spec: the database function is not among the sources; section 4.3
      step 4 gives its outcomes (creates the record under the mapped id and returns the
      id; fails; is unavailable; returns no id), here chosen by \<open>mode\<close>\<close>
  "get_or_create_user_profile mode clerk_user_id full_name' user_email user_role tab =
     (case mode of
        RpcRejects \<Rightarrow> (Inl Rejected, tab)
      | RpcFails \<Rightarrow>
          (Inr \<lparr>data = None, error = Some (PostgrestError (js ''function failed''))\<rparr>, tab)
      | RpcNoId \<Rightarrow> (Inr \<lparr>data = None, error = None\<rparr>, tab)
      | RpcCreates \<Rightarrow>
          (let mapped = generateConsistentUUID [] clerk_user_id
           in (Inr \<lparr>data = Some mapped, error = None\<rparr>,
               if mapped \<in> set (map profile_id tab) then tab
               else tab @ [\<lparr>profile_id = mapped, full_name = full_name', email = user_email,
                             role = user_role, auth_provider = js ''clerk''\<rparr>])))"

definition memory_client :: "rpc_mode \<Rightarrow> table SupabaseClient" where
  \<comment> \<open>Modelled from the spec: the Profile Store of section 6 behind the client's queries\<close>
  "memory_client mode =
     \<lparr>select_id_eq_id = (\<lambda>x tab. (Inr (maybeSingle (select_id (\<lambda>p. profile_id p = x) tab)), tab)),
      select_id_eq_email = (\<lambda>x tab. (Inr (maybeSingle (select_id (\<lambda>p. email p = x) tab)), tab)),
      rpc_get_or_create_user_profile = get_or_create_user_profile mode,
      insert_select_id = insert_row\<rparr>"

definition creation_works :: "rpc_mode \<Rightarrow> bool" where
  \<comment> \<open>the creation step of the resolver leaves a record: the database function creates
      it, or it reports an error and the direct insert is tried\<close>
  "creation_works mode = (mode = RpcCreates \<or> mode = RpcFails)"

definition records_with_id :: "jsstring \<Rightarrow> table \<Rightarrow> nat" where
  "records_with_id v tab = length (filter (\<lambda>p. profile_id p = v) tab)"

section \<open>The arithmetic of the hash loop\<close>

lemma ToInt32_range: "- (2^31) \<le> ToInt32 x \<and> ToInt32 x < 2^31"
  unfolding ToInt32_def Let_def
  using pos_mod_bound[of "2^32" x] pos_mod_sign[of "2^32" x] by auto

lemma ToInt32_cong: "ToInt32 x mod 2^32 = x mod 2^32"
  unfolding ToInt32_def Let_def by (simp add: mod_diff_eq)

lemma ToInt32_eqI: "x mod 2^32 = y mod 2^32 \<Longrightarrow> ToInt32 x = ToInt32 y"
  unfolding ToInt32_def Let_def by simp

lemma ToInt32_idem: "ToInt32 (ToInt32 x) = ToInt32 x"
  by (rule ToInt32_eqI) (rule ToInt32_cong)

lemma js_shl_5_cong: "js_shl h 5 mod 2^32 = (h * 32) mod 2^32"
proof -
  have "js_shl h 5 mod 2^32 = (ToInt32 h * 32) mod 2^32"
    unfolding js_shl_def ToInt32_cong by simp
  also have "\<dots> = ((ToInt32 h mod 2^32) * 32) mod 2^32"
    by (simp only: mod_mult_left_eq)
  also have "\<dots> = (h * 32) mod 2^32"
    by (simp only: ToInt32_cong mod_mult_left_eq)
  finally show ?thesis .
qed

lemma hash_step_rolling: "hash_step c h = ToInt32 (h * 31 + uint c)"
proof -
  have "(js_shl h 5 - h + uint c) mod 2^32 = ((js_shl h 5 mod 2^32) - h + uint c) mod 2^32"
    by (metis mod_add_left_eq mod_diff_left_eq)
  also have "\<dots> = ((h * 32) mod 2^32 - h + uint c) mod 2^32"
    by (simp only: js_shl_5_cong)
  also have "\<dots> = (h * 32 - h + uint c) mod 2^32"
    by (metis mod_add_left_eq mod_diff_left_eq)
  also have "\<dots> = (h * 31 + uint c) mod 2^32"
    by (simp add: algebra_simps)
  finally have "ToInt32 (js_shl h 5 - h + uint c) = ToInt32 (h * 31 + uint c)"
    by (rule ToInt32_eqI)
  then show ?thesis
    by (simp add: hash_step_def js_bitand_def Let_def)
qed

lemma hash_step_range: "- (2^31) \<le> hash_step c h \<and> hash_step c h < 2^31"
  unfolding hash_step_rolling by (rule ToInt32_range)

lemma hash_step_exact:
  fixes c :: jschar
  assumes "- (2^31) \<le> h" "h < 2^31"
  shows "\<bar>js_shl h 5\<bar> < 2^53" "\<bar>js_shl h 5 - h\<bar> < 2^53" "\<bar>js_shl h 5 - h + uint c\<bar> < 2^53"
proof -
  have r: "- (2^31) \<le> js_shl h 5 \<and> js_shl h 5 < 2^31"
    unfolding js_shl_def by (rule ToInt32_range)
  have "uint c < 2 ^ LENGTH(16)"
    by (rule uint_lt2p)
  then have c: "0 \<le> uint c \<and> uint c < 2^16"
    by simp
  show "\<bar>js_shl h 5\<bar> < 2^53" using r by (simp, linarith)
  show "\<bar>js_shl h 5 - h\<bar> < 2^53" using r assms by (simp, linarith)
  show "\<bar>js_shl h 5 - h + uint c\<bar> < 2^53" using r c assms by (simp, linarith)
qed

lemma fold_hash_range: "- (2^31) \<le> h \<Longrightarrow> h < 2^31 \<Longrightarrow> - (2^31) \<le> fold hash_step cs h \<and> fold hash_step cs h < 2^31"
proof (induction cs arbitrary: h)
  case Nil
  then show ?case by simp
next
  case (Cons c cs)
  have "- (2^31) \<le> hash_step c h" "hash_step c h < 2^31"
    using hash_step_range [of c h] by blast+
  then show ?case
    using Cons.IH [of "hash_step c h"] by simp
qed

lemma hash_loop_range: "- (2^31) \<le> hash_loop cs \<and> hash_loop cs < 2^31"
  unfolding hash_loop_def by (rule fold_hash_range) simp_all

section \<open>The digits of the hash\<close>

lemma hexDigit_hex_class: "d < 16 \<Longrightarrow> hex_class (hexDigit d)"
proof -
  assume "d < 16"
  then have "hexDigit d \<in> set (js ''0123456789abcdef'')"
    unfolding hexDigit_def by (intro nth_mem) (simp add: js_def)
  moreover have "\<forall>c \<in> set (js ''0123456789abcdef''). hex_class c"
    by (simp add: js_def hex_class_def class_i_def canonicalize_def)
  ultimately show ?thesis by blast
qed

lemma toString16_hex: "list_all hex_class (toString16 n)"
proof (induction n rule: toString16.induct)
  case (1 n)
  show ?case
  proof (cases "n < 16")
    case True
    then show ?thesis
      by (subst toString16.simps) (simp add: hexDigit_hex_class)
  next
    case False
    then have "list_all hex_class (toString16 (n div 16))"
      using 1 by simp
    with False show ?thesis
      by (subst toString16.simps) (simp add: hexDigit_hex_class)
  qed
qed

lemma toString16_length: "0 < k \<Longrightarrow> n < 16 ^ k \<Longrightarrow> length (toString16 n) \<le> k"
proof (induction k arbitrary: n)
  case 0
  then show ?case by simp
next
  case (Suc k)
  show ?case
  proof (cases "n < 16")
    case True
    then show ?thesis
      by (subst toString16.simps) simp
  next
    case False
    then have k: "0 < k"
      using Suc.prems by (cases k) simp_all
    have "n div 16 < 16 ^ k"
      using Suc.prems by (simp add: less_mult_imp_div_less mult.commute)
    then have "length (toString16 (n div 16)) \<le> k"
      using Suc.IH k by blast
    with False show ?thesis
      by (subst toString16.simps) simp
  qed
qed

lemma hex_of_hash:
  assumes "- (2^31) \<le> (h::int)" "h < 2^31"
  shows "length (padStart 8 (of_nat (of_char CHR ''0'')) (toString16 (nat \<bar>h\<bar>))) = 8"
    and "list_all hex_class (padStart 8 (of_nat (of_char CHR ''0'')) (toString16 (nat \<bar>h\<bar>)))"
proof -
  have "nat \<bar>h\<bar> < 16 ^ 8"
    using assms by simp
  then have "length (toString16 (nat \<bar>h\<bar>)) \<le> 8"
    by (intro toString16_length) simp_all
  then show "length (padStart 8 (of_nat (of_char CHR ''0'')) (toString16 (nat \<bar>h\<bar>))) = 8"
    by (simp add: padStart_def)
  have "hex_class (of_nat (of_char CHR ''0''))"
    by (simp add: hex_class_def class_i_def canonicalize_def js_def)
  then show "list_all hex_class (padStart 8 (of_nat (of_char CHR ''0'')) (toString16 (nat \<bar>h\<bar>)))"
    using toString16_hex [of "nat \<bar>h\<bar>"] by (auto simp: padStart_def list_all_iff)
qed

lemma list8:
  assumes "length xs = 8"
  obtains a b c d e f g h where "xs = [a, b, c, d, e, f, g, h]"
proof -
  from assms have "length xs = Suc (Suc (Suc (Suc (Suc (Suc (Suc (Suc 0)))))))"
    by simp
  then show ?thesis
    using that by (auto simp: length_Suc_conv)
qed

lemma format_uuid_valid:
  assumes "length hex = 8" "list_all hex_class hex"
  shows "validateUUID (format_uuid hex)"
proof -
  obtain a b c d e f g h where hex: "hex = [a, b, c, d, e, f, g, h]"
    using assms(1) by (rule list8)
  have lits: "class_i ''-'' 45" "class_i ''12345'' 52" "class_i ''89ab'' 97" "hex_class 48"
    by (simp_all add: hex_class_def class_i_def canonicalize_def js_def)
  show ?thesis
    using assms(2) lits unfolding hex
    by (simp add: validateUUID_def regex_test_def uuidRegex_def format_uuid_def slice_def
        padEnd_def js_def numeral_eq_Suc)
qed

lemma format_uuid_shape:
  assumes "length hex = 8"
  shows "length (format_uuid hex) = 36 \<and> format_uuid hex ! 8 = 45 \<and> format_uuid hex ! 13 = 45 \<and>
     format_uuid hex ! 14 = 52 \<and> format_uuid hex ! 18 = 45 \<and> format_uuid hex ! 19 = 97 \<and>
     format_uuid hex ! 23 = 45"
proof -
  obtain a b c d e f g h where hex: "hex = [a, b, c, d, e, f, g, h]"
    using assms(1) by (rule list8)
  show ?thesis
    unfolding hex by (simp add: format_uuid_def slice_def padEnd_def js_def)
qed

lemma generateConsistentUUID_eq: "generateConsistentUUID r s = format_uuid (padStart 8 (of_nat (of_char CHR ''0'')) (toString16 (nat \<bar>hash_loop (s @ NAMESPACE_UUID)\<bar>)))"
  by (simp add: generateConsistentUUID_def generateConsistentUUID_try_def Let_def)


lemma hash_loop_append: "hash_loop (s @ t) = fold hash_step t (hash_loop s)"
  by (simp add: hash_loop_def)

lemma hash_Aa_BB: "hash_loop (js ''Aa'') = hash_loop (js ''BB'')"
  by (simp add: hash_loop_def js_def hash_step_rolling ToInt32_def)

lemma generateConsistentUUID_valid: "validateUUID (generateConsistentUUID r s)"
  unfolding generateConsistentUUID_eq
  using hash_loop_range [of "s @ NAMESPACE_UUID"]
  by (intro format_uuid_valid hex_of_hash) simp_all

lemma generateConsistentUUID_shape:
  "length (generateConsistentUUID r s) = 36 \<and> generateConsistentUUID r s ! 14 = 52 \<and>
   generateConsistentUUID r s ! 19 = 97"
proof -
  have "length (padStart 8 (of_nat (of_char CHR ''0''))
          (toString16 (nat \<bar>hash_loop (s @ NAMESPACE_UUID)\<bar>))) = 8"
    using hash_loop_range [of "s @ NAMESPACE_UUID"] by (intro hex_of_hash) simp_all
  from format_uuid_shape [OF this] show ?thesis
    unfolding generateConsistentUUID_eq by simp
qed

lemma generateConsistentUUID_random: "generateConsistentUUID r1 s = generateConsistentUUID r2 s"
  by (simp add: generateConsistentUUID_eq)

section \<open>The identity mapper and the validator: the claims\<close>

text \<open>
  C1. For every string, the output of the mapper passes the format validator: it has
  36 characters, the version nibble is \<open>4\<close> and the variant nibble is \<open>a\<close>. The first
  argument is the random UUID of the \<open>catch\<close> handler, which the result does not use.
\<close>

theorem C1_mapper_output_valid:
  "validateUUID (generateConsistentUUID randomUUID s) \<and>
   length (generateConsistentUUID randomUUID s) = 36 \<and>
   generateConsistentUUID randomUUID s ! 14 = of_nat (of_char CHR ''4'') \<and>
   generateConsistentUUID randomUUID s ! 19 = of_nat (of_char CHR ''a'')"
  using generateConsistentUUID_valid [of randomUUID s]
    generateConsistentUUID_shape [of randomUUID s]
  by simp

text \<open>
  C7. The mapper is deterministic: the \<open>try\<close> block returns for every string, so the
  \<open>catch\<close> handler with its random UUID is never reached, and two calls on the same
  string give the same result whatever the random source would have produced.
\<close>

theorem C7_mapper_deterministic:
  "(\<exists>uuid. generateConsistentUUID_try s = Inr uuid) \<and>
   generateConsistentUUID random1 s = generateConsistentUUID random2 s"
  by (simp add: generateConsistentUUID_def generateConsistentUUID_try_def Let_def)


text \<open>
  C9. The mapper is not injective: the distinct strings \<open>Aa\<close> and \<open>BB\<close> have the same
  hash after two iterations, hence the same 32-bit hash of the whole input, and the
  output is computed from that hash alone.
\<close>

theorem C9_mapper_not_injective:
  "js ''Aa'' \<noteq> js ''BB'' \<and>
   generateConsistentUUID randomUUID (js ''Aa'') = generateConsistentUUID randomUUID (js ''BB'') \<and>
   \<not> inj (generateConsistentUUID randomUUID)"
proof -
  have ne: "js ''Aa'' \<noteq> js ''BB''"
    by (simp add: js_def)
  have eq: "generateConsistentUUID randomUUID (js ''Aa'') =
            generateConsistentUUID randomUUID (js ''BB'')"
    unfolding generateConsistentUUID_eq hash_loop_append hash_Aa_BB ..
  from ne eq have "\<not> inj (generateConsistentUUID randomUUID)"
    by (auto dest: injD)
  with ne eq show ?thesis by blast
qed

section \<open>The resolver always resolves\<close>

lemma insert_try_cases:
  obtains (threw) err s1 where "insert_try sb u f e r s = (Inl err, s1)"
  | (kept) s1 where "insert_try sb u f e r s = (Inr u, s1)"
  | (handed) response s1 found where
      "insert_select_id sb \<lparr>profile_id = u, full_name = f, email = e, role = r,
         auth_provider = js ''clerk''\<rparr> s = (Inr response, s1)"
      "error response = None" "data response = Some found"
      "insert_try sb u f e r s = (Inr (row_id found), s1)"
proof (cases "insert_select_id sb \<lparr>profile_id = u, full_name = f, email = e, role = r,
         auth_provider = js ''clerk''\<rparr> s")
  case (Pair reply s1)
  show ?thesis
  proof (cases reply)
    case (Inl err)
    with Pair have "insert_try sb u f e r s = (Inl err, s1)"
      by (simp add: insert_try_def)
    then show ?thesis by (rule threw)
  next
    case (Inr response)
    show ?thesis
    proof (cases "error response")
      case (Some insertError)
      with Pair Inr have "insert_try sb u f e r s = (Inr u, s1)"
        by (simp add: insert_try_def)
      then show ?thesis by (rule kept)
    next
      case None
      show ?thesis
      proof (cases "data response")
        case no_data: None
        with Pair Inr None have "insert_try sb u f e r s = (Inl TypeError, s1)"
          by (simp add: insert_try_def)
        then show ?thesis by (rule threw)
      next
        case (Some found)
        with Pair Inr None have "insert_try sb u f e r s = (Inr (row_id found), s1)"
          by (simp add: insert_try_def)
        with Pair Inr None Some show ?thesis
          by (intro handed [of response s1 found]) simp_all
      qed
    qed
  qed
qed

lemma create_try_catch_total:
  "\<exists>v s1. create_try_catch sb u c f e r s = (Inr v, s1)"
  unfolding create_try_catch_def
  by (auto split: prod.splits sum.splits)

lemma lookup_try_cases:
  obtains (found) v s1 where "lookup_try sb u e s = (Inr (Some v), s1)"
  | (none) s1 where "lookup_try sb u e s = (Inr None, s1)"
  | (threw) err s1 where "lookup_try sb u e s = (Inl err, s1)"
proof (cases "lookup_try sb u e s")
  case (Pair a b)
  then show ?thesis
    using that by (cases a) (auto split: option.splits)
qed

lemma getOrCreateUserProfile_total:
  "\<exists>v s1. getOrCreateUserProfile sb rnd c f e r s = (Inr v, s1)"
proof (cases rule: lookup_try_cases [of sb "generateConsistentUUID rnd c" e s])
  case (found v s1)
  then show ?thesis by (simp add: getOrCreateUserProfile_def)
next
  case (none s1)
  then show ?thesis
    using create_try_catch_total [of sb "generateConsistentUUID rnd c" c f e r s1]
    by (simp add: getOrCreateUserProfile_def)
next
  case (threw err s1)
  then show ?thesis
    using create_try_catch_total [of sb "generateConsistentUUID rnd c" c f e r s1]
    by (simp add: getOrCreateUserProfile_def)
qed

lemma getOrCreateUserProfile_part_000_total:
  "\<exists>v s1. getOrCreateUserProfile_part_000 sb rnd c f e r s = (Inr v, s1)"
  by (cases rule: lookup_try_cases [of sb "generateConsistentUUID rnd c" e s])
     (simp_all add: getOrCreateUserProfile_part_000_def)

section \<open>An unreachable store\<close>

lemma failed_cases:
  assumes "failed reply"
  obtains (threw) err where "reply = Inl err"
  | (error) response err where "reply = Inr response" "error response = Some err" "data response = None"
  using assms unfolding failed_def by (cases reply) auto

lemma unreachable_lookup_try:
  assumes "all_operations_fail sb"
  shows "(\<exists>err. lookup_try sb u e s = (Inl err, s)) \<or> lookup_try sb u e s = (Inr None, s)"
proof -
  have id: "failed (fst (select_id_eq_id sb u s))" "snd (select_id_eq_id sb u s) = s"
    using assms unfolding all_operations_fail_def by blast+
  have em: "failed (fst (select_id_eq_email sb e s))" "snd (select_id_eq_email sb e s) = s"
    using assms unfolding all_operations_fail_def by blast+
  from id(1) show ?thesis
  proof (cases rule: failed_cases)
    case (threw err)
    with id(2) have "select_id_eq_id sb u s = (Inl err, s)"
      by (simp add: prod_eq_iff)
    then show ?thesis by (simp add: lookup_try_def)
  next
    case (error response err)
    with id(2) have 1: "select_id_eq_id sb u s = (Inr response, s)"
      by (simp add: prod_eq_iff)
    from em(1) show ?thesis
    proof (cases rule: failed_cases)
      case (threw err2)
      with em(2) have "select_id_eq_email sb e s = (Inl err2, s)"
        by (simp add: prod_eq_iff)
      with 1 error show ?thesis by (simp add: lookup_try_def)
    next
      case error2: (error response2 err2)
      with em(2) have "select_id_eq_email sb e s = (Inr response2, s)"
        by (simp add: prod_eq_iff)
      with 1 error error2 show ?thesis by (simp add: lookup_try_def)
    qed
  qed
qed

lemma unreachable_insert_try:
  assumes "all_operations_fail sb"
  shows "(\<exists>err. insert_try sb u f e r s = (Inl err, s)) \<or> insert_try sb u f e r s = (Inr u, s)"
proof -
  let ?p = "\<lparr>profile_id = u, full_name = f, email = e, role = r, auth_provider = js ''clerk''\<rparr>"
  have ins: "failed (fst (insert_select_id sb ?p s))" "snd (insert_select_id sb ?p s) = s"
    using assms unfolding all_operations_fail_def by blast+
  from ins(1) show ?thesis
  proof (cases rule: failed_cases)
    case (threw err)
    with ins(2) have "insert_select_id sb ?p s = (Inl err, s)"
      by (simp add: prod_eq_iff)
    then show ?thesis by (simp add: insert_try_def)
  next
    case (error response err)
    with ins(2) have "insert_select_id sb ?p s = (Inr response, s)"
      by (simp add: prod_eq_iff)
    with error show ?thesis by (simp add: insert_try_def)
  qed
qed

lemma unreachable_create_try_catch:
  assumes "all_operations_fail sb"
  shows "create_try_catch sb u c f e r s = (Inr u, s)"
proof -
  have rpc: "failed (fst (rpc_get_or_create_user_profile sb c f e r s))"
    "snd (rpc_get_or_create_user_profile sb c f e r s) = s"
    using assms unfolding all_operations_fail_def by blast+
  from rpc(1) show ?thesis
  proof (cases rule: failed_cases)
    case (threw err)
    with rpc(2) have "rpc_get_or_create_user_profile sb c f e r s = (Inl err, s)"
      by (simp add: prod_eq_iff)
    then show ?thesis by (simp add: create_try_catch_def create_try_def)
  next
    case (error response err)
    with rpc(2) have "rpc_get_or_create_user_profile sb c f e r s = (Inr response, s)"
      by (simp add: prod_eq_iff)
    with error unreachable_insert_try [OF assms, of u f e r s] show ?thesis
      by (auto simp: create_try_catch_def create_try_def)
  qed
qed

text \<open>
  C5. If every query of the store fails (it throws, or its response carries an error
  and no data) and changes nothing, the resolver returns the mapped id of the external
  id, does not raise, and leaves the store as it was. This holds for both versions.
\<close>

theorem C5_store_unreachable:
  assumes "all_operations_fail sb"
  shows "getOrCreateUserProfile sb rnd c f e r s = (Inr (generateConsistentUUID rnd c), s) \<and>
         getOrCreateUserProfile_part_000 sb rnd c f e r s = (Inr (generateConsistentUUID rnd c), s)"
  using unreachable_lookup_try [OF assms, of "generateConsistentUUID rnd c" e s]
    unreachable_create_try_catch [OF assms, of "generateConsistentUUID rnd c" c f e r s]
  by (auto simp: getOrCreateUserProfile_def getOrCreateUserProfile_part_000_def)

text \<open>A store whose lookups and queries all fail, some by throwing and some by an error.\<close>

theorem C5_store_unreachable_witness:
  "all_operations_fail (stub_client (Inl Rejected) (Inr \<lparr>data = None, error = Some (PostgrestError (js ''offline''))\<rparr>)
      (Inr \<lparr>data = None, error = Some (PostgrestError (js ''offline''))\<rparr>) (Inl Rejected)) \<and>
   getOrCreateUserProfile (stub_client (Inl Rejected) (Inr \<lparr>data = None, error = Some (PostgrestError (js ''offline''))\<rparr>)
      (Inr \<lparr>data = None, error = Some (PostgrestError (js ''offline''))\<rparr>) (Inl Rejected))
      [] (js ''user-123'') (js ''Ada'') (js ''ada@example.org'') (js ''student'') ()
    = (Inr (generateConsistentUUID [] (js ''user-123'')), ()) \<and>
   getOrCreateUserProfile_part_000 (stub_client (Inl Rejected) (Inr \<lparr>data = None, error = Some (PostgrestError (js ''offline''))\<rparr>)
      (Inr \<lparr>data = None, error = Some (PostgrestError (js ''offline''))\<rparr>) (Inl Rejected))
      [] (js ''user-123'') (js ''Ada'') (js ''ada@example.org'') (js ''student'') ()
    = (Inr (generateConsistentUUID [] (js ''user-123'')), ())"
proof -
  have h: "all_operations_fail (stub_client (Inl Rejected) (Inr \<lparr>data = None, error = Some (PostgrestError (js ''offline''))\<rparr>)
      (Inr \<lparr>data = None, error = Some (PostgrestError (js ''offline''))\<rparr>) (Inl Rejected))"
    by (simp add: all_operations_fail_def stub_client_def failed_def)
  from C5_store_unreachable [OF h] h show ?thesis by simp
qed

section \<open>Which ids the resolver returns\<close>

lemma lookup_try_found:
  assumes "lookup_try sb u e s = (Inr (Some v), s1)"
  shows "(\<exists>response found. select_id_eq_id sb u s = (Inr response, s1) \<and>
            data response = Some found \<and> v = row_id found) \<or>
         (\<exists>s0 response0 response found. select_id_eq_id sb u s = (Inr response0, s0) \<and>
            data response0 = None \<and> select_id_eq_email sb e s0 = (Inr response, s1) \<and>
            data response = Some found \<and> v = row_id found)"
  using assms unfolding lookup_try_def
  by (auto split: prod.splits sum.splits option.splits)

lemma create_try_catch_cases:
  obtains (kept) s1 where "create_try_catch sb u c f e r s = (Inr u, s1)"
  | (rpc) response s1 profileId where
      "rpc_get_or_create_user_profile sb c f e r s = (Inr response, s1)"
      "error response = None" "data response = Some profileId" "profileId \<noteq> []"
      "create_try_catch sb u c f e r s = (Inr profileId, s1)"
  | (inserted) s1 response s2 found where
      "insert_select_id sb \<lparr>profile_id = u, full_name = f, email = e, role = r,
         auth_provider = js ''clerk''\<rparr> s1 = (Inr response, s2)"
      "error response = None" "data response = Some found"
      "create_try_catch sb u c f e r s = (Inr (row_id found), s2)"
proof (cases "rpc_get_or_create_user_profile sb c f e r s")
  case (Pair reply s1)
  show ?thesis
  proof (cases reply)
    case (Inl err)
    with Pair have "create_try_catch sb u c f e r s = (Inr u, s1)"
      by (simp add: create_try_catch_def create_try_def)
    then show ?thesis by (rule kept)
  next
    case (Inr response)
    show ?thesis
    proof (cases "error response")
      case None
      show ?thesis
      proof (cases "data response")
        case no_data: None
        with Pair Inr None have "create_try_catch sb u c f e r s = (Inr u, s1)"
          by (simp add: create_try_catch_def create_try_def)
        then show ?thesis by (rule kept)
      next
        case (Some profileId)
        show ?thesis
        proof (cases "profileId = []")
          case True
          with Pair Inr None Some have "create_try_catch sb u c f e r s = (Inr u, s1)"
            by (simp add: create_try_catch_def create_try_def)
          then show ?thesis by (rule kept)
        next
          case False
          with Pair Inr None Some have "create_try_catch sb u c f e r s = (Inr profileId, s1)"
            by (simp add: create_try_catch_def create_try_def)
          with Pair Inr None Some False show ?thesis
            by (intro rpc [of response s1 profileId]) simp_all
        qed
      qed
    next
      case (Some rpcError)
      have step: "create_try_catch sb u c f e r s =
         (case insert_try sb u f e r s1 of (Inl x, s2) \<Rightarrow> (Inr u, s2) | (Inr v, s2) \<Rightarrow> (Inr v, s2))"
        using Pair Inr Some
        by (simp add: create_try_catch_def create_try_def split: prod.splits sum.splits)
      show ?thesis
      proof (cases rule: insert_try_cases [of sb u f e r s1])
        case (threw err s2)
        with step have "create_try_catch sb u c f e r s = (Inr u, s2)" by simp
        then show ?thesis by (rule kept)
      next
        case (kept s2)
        with step have "create_try_catch sb u c f e r s = (Inr u, s2)" by simp
        then show ?thesis by (rule that(1))
      next
        case (handed response2 s2 found)
        with step have "create_try_catch sb u c f e r s = (Inr (row_id found), s2)" by simp
        with handed show ?thesis
          by (intro inserted [of s1 response2 s2 found]) simp_all
      qed
    qed
  qed
qed

lemma hands_back_valid_idsD:
  assumes "hands_back_valid_ids sb"
  shows "select_id_eq_id sb x s = (Inr response, s') \<Longrightarrow> data response = Some found \<Longrightarrow>
           validateUUID (row_id found)"
    and "select_id_eq_email sb x s = (Inr response, s') \<Longrightarrow> data response = Some found \<Longrightarrow>
           validateUUID (row_id found)"
    and "rpc_get_or_create_user_profile sb c f e r s = (Inr response2, s') \<Longrightarrow>
           error response2 = None \<Longrightarrow> data response2 = Some profileId \<Longrightarrow> profileId \<noteq> [] \<Longrightarrow>
           validateUUID profileId"
    and "insert_select_id sb p s = (Inr response, s') \<Longrightarrow> error response = None \<Longrightarrow>
           data response = Some found \<Longrightarrow> validateUUID (row_id found)"
proof -
  note h = assms [unfolded hands_back_valid_ids_def]
  show "select_id_eq_id sb x s = (Inr response, s') \<Longrightarrow> data response = Some found \<Longrightarrow>
           validateUUID (row_id found)"
    using h by meson
  show "select_id_eq_email sb x s = (Inr response, s') \<Longrightarrow> data response = Some found \<Longrightarrow>
           validateUUID (row_id found)"
    using h by meson
  show "rpc_get_or_create_user_profile sb c f e r s = (Inr response2, s') \<Longrightarrow>
           error response2 = None \<Longrightarrow> data response2 = Some profileId \<Longrightarrow> profileId \<noteq> [] \<Longrightarrow>
           validateUUID profileId"
    using h by meson
  show "insert_select_id sb p s = (Inr response, s') \<Longrightarrow> error response = None \<Longrightarrow>
           data response = Some found \<Longrightarrow> validateUUID (row_id found)"
    using h by meson
qed

lemma create_try_catch_valid:
  assumes "hands_back_valid_ids sb" "validateUUID u" "create_try_catch sb u c f e r s = (Inr v, s1)"
  shows "validateUUID v"
proof (cases rule: create_try_catch_cases [of sb u c f e r s])
  case (kept s1)
  with assms show ?thesis by simp
next
  case (rpc response s2 profileId)
  then have "validateUUID profileId"
    by (intro hands_back_valid_idsD(3) [OF assms(1)])
  with rpc assms(3) show ?thesis by simp
next
  case (inserted s2 response s3 found)
  then have "validateUUID (row_id found)"
    by (intro hands_back_valid_idsD(4) [OF assms(1)])
  with inserted assms(3) show ?thesis by simp
qed

lemma lookup_try_valid:
  assumes "hands_back_valid_ids sb" "lookup_try sb u e s = (Inr (Some v), s1)"
  shows "validateUUID v"
  using lookup_try_found [OF assms(2)] hands_back_valid_idsD(1,2) [OF assms(1)]
  by auto

lemma getOrCreateUserProfile_valid:
  assumes "hands_back_valid_ids sb" "getOrCreateUserProfile sb rnd c f e r s = (Inr v, s1)"
  shows "validateUUID v"
proof (cases rule: lookup_try_cases [of sb "generateConsistentUUID rnd c" e s])
  case (found w s2)
  with assms(2) have "w = v" by (simp add: getOrCreateUserProfile_def)
  with found lookup_try_valid [OF assms(1)] show ?thesis by blast
next
  case (none s2)
  with assms(2) have "create_try_catch sb (generateConsistentUUID rnd c) c f e r s2 = (Inr v, s1)"
    by (simp add: getOrCreateUserProfile_def)
  then show ?thesis
    using create_try_catch_valid [OF assms(1) generateConsistentUUID_valid] by blast
next
  case (threw err s2)
  with assms(2) have "create_try_catch sb (generateConsistentUUID rnd c) c f e r s2 = (Inr v, s1)"
    by (simp add: getOrCreateUserProfile_def)
  then show ?thesis
    using create_try_catch_valid [OF assms(1) generateConsistentUUID_valid] by blast
qed

lemma getOrCreateUserProfile_part_000_valid:
  assumes "hands_back_valid_ids sb" "getOrCreateUserProfile_part_000 sb rnd c f e r s = (Inr v, s1)"
  shows "validateUUID v"
proof (cases rule: lookup_try_cases [of sb "generateConsistentUUID rnd c" e s])
  case (found w s2)
  with assms(2) have "w = v" by (simp add: getOrCreateUserProfile_part_000_def)
  with found lookup_try_valid [OF assms(1)] show ?thesis by blast
next
  case (none s2)
  with assms(2) show ?thesis
    using generateConsistentUUID_valid [of rnd c]
    by (auto simp: getOrCreateUserProfile_part_000_def)
next
  case (threw err s2)
  with assms(2) show ?thesis
    using generateConsistentUUID_valid [of rnd c]
    by (auto simp: getOrCreateUserProfile_part_000_def)
qed

text \<open>
  C3, as amended. For every input and every behaviour of the store, the resolver does
  not raise: it always resolves to a string. That string passes the validator whenever
  every id the store hands back does; an id found by a lookup, returned by the database
  function or by the insert is returned as it is, without validation.
\<close>

theorem C3_never_raises:
  "(\<exists>v s1. getOrCreateUserProfile sb rnd c f e r s = (Inr v, s1) \<and>
            (hands_back_valid_ids sb \<longrightarrow> validateUUID v)) \<and>
   (\<exists>v s1. getOrCreateUserProfile_part_000 sb rnd c f e r s = (Inr v, s1) \<and>
            (hands_back_valid_ids sb \<longrightarrow> validateUUID v))"
  using getOrCreateUserProfile_total [of sb rnd c f e r s]
    getOrCreateUserProfile_part_000_total [of sb rnd c f e r s]
    getOrCreateUserProfile_valid [of sb rnd c f e r s]
    getOrCreateUserProfile_part_000_valid [of sb rnd c f e r s]
  by blast

section \<open>Concrete values, and an id the validator rejects\<close>

lemmas resolver_defs =
  getOrCreateUserProfile_def getOrCreateUserProfile_part_000_def lookup_try_def
  create_try_catch_def create_try_def insert_try_def

lemmas memory_defs =
  memory_client_def select_id_def maybeSingle_def single_def insert_row_def
  get_or_create_user_profile_def

lemma replicate_numeral: "replicate (numeral k) x = x # replicate (pred_numeral k) x"
  by (simp add: numeral_eq_Suc)

lemma generateConsistentUUID_user_123:
  "generateConsistentUUID r (js ''user-123'') = js ''0275657e-0275-4275-a027-0275657e0000''"
  unfolding generateConsistentUUID_eq
  by (simp add: hash_loop_def js_def NAMESPACE_UUID_def hash_step_rolling ToInt32_def
      toString16.simps hexDigit_def padStart_def format_uuid_def slice_def padEnd_def
      replicate_numeral)

lemma nil_uuid_invalid: "\<not> validateUUID (js ''00000000-0000-0000-0000-000000000000'')"
  by (simp add: validateUUID_def regex_test_def uuidRegex_def js_def hex_class_def class_i_def
      canonicalize_def replicate_numeral)

lemma sample_uuid_valid: "validateUUID (js ''123e4567-e89b-42d3-a456-426614174000'')"
  by (simp add: validateUUID_def regex_test_def uuidRegex_def js_def hex_class_def class_i_def
      canonicalize_def replicate_numeral)

text \<open>
  C3 as stated fails: the lookup by primary key finds nothing and the lookup by e-mail
  finds a record whose id is the nil UUID; the resolver returns that id, and the
  validator rejects it (its version nibble is \<open>0\<close>).
\<close>

theorem C3_store_id_unvalidated_counterexample:
  "fst (getOrCreateUserProfile
          (stub_client (Inr \<lparr>data = None, error = None\<rparr>)
             (Inr \<lparr>data = Some (Row (js ''00000000-0000-0000-0000-000000000000'')), error = None\<rparr>)
             (Inl Rejected) (Inl Rejected))
          [] (js ''user-123'') (js ''Ada'') (js ''ada@example.org'') (js ''student'') ())
     = Inr (js ''00000000-0000-0000-0000-000000000000'') \<and>
   \<not> validateUUID (js ''00000000-0000-0000-0000-000000000000'')"
  using nil_uuid_invalid
  by (simp add: resolver_defs stub_client_def)

text \<open>A store that only hands back a well-formed id, found by e-mail.\<close>

theorem C3_never_raises_witness:
  "hands_back_valid_ids
     (stub_client (Inr \<lparr>data = None, error = None\<rparr>)
        (Inr \<lparr>data = Some (Row (js ''123e4567-e89b-42d3-a456-426614174000'')), error = None\<rparr>)
        (Inl Rejected) (Inl Rejected)) \<and>
   (\<exists>v s1. getOrCreateUserProfile
        (stub_client (Inr \<lparr>data = None, error = None\<rparr>)
           (Inr \<lparr>data = Some (Row (js ''123e4567-e89b-42d3-a456-426614174000'')), error = None\<rparr>)
           (Inl Rejected) (Inl Rejected))
        [] (js ''user-123'') (js ''Ada'') (js ''ada@example.org'') (js ''student'') () = (Inr v, s1) \<and>
      validateUUID v) \<and>
   (\<exists>v s1. getOrCreateUserProfile_part_000
        (stub_client (Inr \<lparr>data = None, error = None\<rparr>)
           (Inr \<lparr>data = Some (Row (js ''123e4567-e89b-42d3-a456-426614174000'')), error = None\<rparr>)
           (Inl Rejected) (Inl Rejected))
        [] (js ''user-123'') (js ''Ada'') (js ''ada@example.org'') (js ''student'') () = (Inr v, s1) \<and>
      validateUUID v)"
proof -
  let ?sb = "stub_client (Inr \<lparr>data = None, error = None\<rparr>)
        (Inr \<lparr>data = Some (Row (js ''123e4567-e89b-42d3-a456-426614174000'')), error = None\<rparr>)
        (Inl Rejected) (Inl Rejected)"
  have h: "hands_back_valid_ids ?sb"
    using sample_uuid_valid by (auto simp: hands_back_valid_ids_def stub_client_def)
  from C3_never_raises [of ?sb "[]" "js ''user-123''" "js ''Ada''" "js ''ada@example.org''" "js ''student''" "()"] h
  show ?thesis by blast
qed

section \<open>Reconciliation by e-mail\<close>

text \<open>
  For every client: when the lookup by primary key resolves without a record and the
  lookup by e-mail resolves with one, both versions return the id of that record, and
  the store is left as the lookups found it.
\<close>

lemma found_by_email:
  assumes "select_id_eq_id sb (generateConsistentUUID rnd c) s = (Inr response1, s)"
    and "data response1 = None"
    and "select_id_eq_email sb e s = (Inr response2, s)"
    and "data response2 = Some emailProfile"
  shows "getOrCreateUserProfile sb rnd c f e r s = (Inr (row_id emailProfile), s)"
    and "getOrCreateUserProfile_part_000 sb rnd c f e r s = (Inr (row_id emailProfile), s)"
  using assms
  by (simp_all add: getOrCreateUserProfile_def getOrCreateUserProfile_part_000_def lookup_try_def)

text \<open>
  C6, as amended. If the store holds no record whose primary key is the mapped id and
  exactly one record with the supplied e-mail, the resolver returns the id of that
  record, which is not the mapped id, and the store is unchanged: nothing is created.
  This holds for both versions and for every behaviour of the database function.
\<close>

theorem C6_reconciliation_unique_email:
  assumes "generateConsistentUUID rnd c \<notin> set (map profile_id tab)"
    and "filter (\<lambda>q. email q = e) tab = [p]"
  shows "getOrCreateUserProfile (memory_client mode) rnd c f e r tab = (Inr (profile_id p), tab) \<and>
         getOrCreateUserProfile_part_000 (memory_client mode) rnd c f e r tab = (Inr (profile_id p), tab) \<and>
         profile_id p \<noteq> generateConsistentUUID rnd c \<and> p \<in> set tab"
proof -
  let ?u = "generateConsistentUUID rnd c"
  have "filter (\<lambda>q. profile_id q = ?u) tab = []"
    using assms(1) by (metis (mono_tags, lifting) filter_False image_eqI list.set_map)
  then have by_id: "select_id_eq_id (memory_client mode) ?u tab =
      (Inr \<lparr>data = None, error = None\<rparr>, tab)"
    by (simp add: memory_client_def select_id_def maybeSingle_def)
  have by_email: "select_id_eq_email (memory_client mode) e tab =
      (Inr \<lparr>data = Some (Row (profile_id p)), error = None\<rparr>, tab)"
    using assms(2) by (simp add: memory_client_def select_id_def maybeSingle_def)
  have "p \<in> set (filter (\<lambda>q. email q = e) tab)"
    using assms(2) by simp
  then have mem: "p \<in> set tab" by simp
  with assms(1) have ne: "profile_id p \<noteq> ?u"
    by (metis image_eqI list.set_map)
  from found_by_email [OF by_id _ by_email, of "Row (profile_id p)" f r] ne mem
  show ?thesis by simp
qed

text \<open>
  The in-memory store with one record, created under another id with the same e-mail.
\<close>

theorem C6_reconciliation_unique_email_witness:
  "generateConsistentUUID [] (js ''user-123'') \<notin> set (map profile_id
      [\<lparr>profile_id = js ''00000000-0000-0000-0000-000000000000'', full_name = js ''Ada'',
        email = js ''ada@example.org'', role = js ''student'', auth_provider = js ''email''\<rparr>]) \<and>
   filter (\<lambda>q. email q = js ''ada@example.org'')
      [\<lparr>profile_id = js ''00000000-0000-0000-0000-000000000000'', full_name = js ''Ada'',
        email = js ''ada@example.org'', role = js ''student'', auth_provider = js ''email''\<rparr>]
     = [\<lparr>profile_id = js ''00000000-0000-0000-0000-000000000000'', full_name = js ''Ada'',
         email = js ''ada@example.org'', role = js ''student'', auth_provider = js ''email''\<rparr>] \<and>
   getOrCreateUserProfile (memory_client RpcCreates) [] (js ''user-123'') (js ''Ada'')
      (js ''ada@example.org'') (js ''student'')
      [\<lparr>profile_id = js ''00000000-0000-0000-0000-000000000000'', full_name = js ''Ada'',
        email = js ''ada@example.org'', role = js ''student'', auth_provider = js ''email''\<rparr>]
     = (Inr (js ''00000000-0000-0000-0000-000000000000''),
        [\<lparr>profile_id = js ''00000000-0000-0000-0000-000000000000'', full_name = js ''Ada'',
          email = js ''ada@example.org'', role = js ''student'', auth_provider = js ''email''\<rparr>]) \<and>
   getOrCreateUserProfile_part_000 (memory_client RpcCreates) [] (js ''user-123'') (js ''Ada'')
      (js ''ada@example.org'') (js ''student'')
      [\<lparr>profile_id = js ''00000000-0000-0000-0000-000000000000'', full_name = js ''Ada'',
        email = js ''ada@example.org'', role = js ''student'', auth_provider = js ''email''\<rparr>]
     = (Inr (js ''00000000-0000-0000-0000-000000000000''),
        [\<lparr>profile_id = js ''00000000-0000-0000-0000-000000000000'', full_name = js ''Ada'',
          email = js ''ada@example.org'', role = js ''student'', auth_provider = js ''email''\<rparr>])"
proof -
  let ?p = "\<lparr>profile_id = js ''00000000-0000-0000-0000-000000000000'', full_name = js ''Ada'',
        email = js ''ada@example.org'', role = js ''student'', auth_provider = js ''email''\<rparr>"
  have ne: "js ''0275657e-0275-4275-a027-0275657e0000'' \<noteq> js ''00000000-0000-0000-0000-000000000000''"
    by (simp add: js_def)
  have 1: "generateConsistentUUID [] (js ''user-123'') \<notin> set (map profile_id [?p])"
    using ne by (simp add: generateConsistentUUID_user_123)
  have 2: "filter (\<lambda>q. email q = js ''ada@example.org'') [?p] = [?p]"
    by simp
  from C6_reconciliation_unique_email [OF 1 2, of RpcCreates "js ''Ada''" "js ''student''"] 1 2
  show ?thesis by simp
qed

text \<open>
  C6 as stated fails: the store holds no record under the mapped id and two records
  with the supplied e-mail. The lookup by e-mail then yields an error and no data, which
  the resolver takes for "not found": both versions return the mapped id, and the
  version with the creation step inserts a third record.
\<close>

theorem C6_shared_email_counterexample:
  "generateConsistentUUID [] (js ''user-123'') \<notin> set (map profile_id
      [\<lparr>profile_id = js ''11111111-1111-4111-8111-111111111111'', full_name = js ''Ada'',
        email = js ''ada@example.org'', role = js ''student'', auth_provider = js ''email''\<rparr>,
       \<lparr>profile_id = js ''22222222-2222-4222-8222-222222222222'', full_name = js ''Ada L'',
        email = js ''ada@example.org'', role = js ''student'', auth_provider = js ''email''\<rparr>]) \<and>
   getOrCreateUserProfile (memory_client RpcFails) [] (js ''user-123'') (js ''Ada'')
      (js ''ada@example.org'') (js ''student'')
      [\<lparr>profile_id = js ''11111111-1111-4111-8111-111111111111'', full_name = js ''Ada'',
        email = js ''ada@example.org'', role = js ''student'', auth_provider = js ''email''\<rparr>,
       \<lparr>profile_id = js ''22222222-2222-4222-8222-222222222222'', full_name = js ''Ada L'',
        email = js ''ada@example.org'', role = js ''student'', auth_provider = js ''email''\<rparr>]
     = (Inr (js ''0275657e-0275-4275-a027-0275657e0000''),
        [\<lparr>profile_id = js ''11111111-1111-4111-8111-111111111111'', full_name = js ''Ada'',
          email = js ''ada@example.org'', role = js ''student'', auth_provider = js ''email''\<rparr>,
         \<lparr>profile_id = js ''22222222-2222-4222-8222-222222222222'', full_name = js ''Ada L'',
          email = js ''ada@example.org'', role = js ''student'', auth_provider = js ''email''\<rparr>,
         \<lparr>profile_id = js ''0275657e-0275-4275-a027-0275657e0000'', full_name = js ''Ada'',
          email = js ''ada@example.org'', role = js ''student'', auth_provider = js ''clerk''\<rparr>]) \<and>
   getOrCreateUserProfile_part_000 (memory_client RpcFails) [] (js ''user-123'') (js ''Ada'')
      (js ''ada@example.org'') (js ''student'')
      [\<lparr>profile_id = js ''11111111-1111-4111-8111-111111111111'', full_name = js ''Ada'',
        email = js ''ada@example.org'', role = js ''student'', auth_provider = js ''email''\<rparr>,
       \<lparr>profile_id = js ''22222222-2222-4222-8222-222222222222'', full_name = js ''Ada L'',
        email = js ''ada@example.org'', role = js ''student'', auth_provider = js ''email''\<rparr>]
     = (Inr (js ''0275657e-0275-4275-a027-0275657e0000''),
        [\<lparr>profile_id = js ''11111111-1111-4111-8111-111111111111'', full_name = js ''Ada'',
          email = js ''ada@example.org'', role = js ''student'', auth_provider = js ''email''\<rparr>,
         \<lparr>profile_id = js ''22222222-2222-4222-8222-222222222222'', full_name = js ''Ada L'',
          email = js ''ada@example.org'', role = js ''student'', auth_provider = js ''email''\<rparr>])"
proof -
  have ne: "js ''11111111-1111-4111-8111-111111111111'' \<noteq> js ''0275657e-0275-4275-a027-0275657e0000''"
    "js ''22222222-2222-4222-8222-222222222222'' \<noteq> js ''0275657e-0275-4275-a027-0275657e0000''"
    "js ''0275657e-0275-4275-a027-0275657e0000'' \<noteq> js ''11111111-1111-4111-8111-111111111111''"
    "js ''0275657e-0275-4275-a027-0275657e0000'' \<noteq> js ''22222222-2222-4222-8222-222222222222''"
    by (simp_all add: js_def)
  show ?thesis
    using ne
    by (simp add: resolver_defs memory_defs generateConsistentUUID_user_123 Let_def)
qed

section \<open>The creation step\<close>

text \<open>
  C4 as stated fails: when both lookups find nothing, the database function receives
  the external (Clerk) id, not the mapped id, and the version of \<open>unnamed/part_000\<close>
  makes no creation query at all.
\<close>

theorem C4_rpc_argument_counterexample:
  "snd (getOrCreateUserProfile recording_client [] (js ''user-123'') (js ''Ada'')
          (js ''ada@example.org'') (js ''student'') [])
     = [SelectIdEqId (generateConsistentUUID [] (js ''user-123'')),
        SelectIdEqEmail (js ''ada@example.org''),
        Rpc (js ''user-123'') (js ''Ada'') (js ''ada@example.org'') (js ''student'')] \<and>
   js ''user-123'' \<noteq> generateConsistentUUID [] (js ''user-123'') \<and>
   snd (getOrCreateUserProfile_part_000 recording_client [] (js ''user-123'') (js ''Ada'')
          (js ''ada@example.org'') (js ''student'') [])
     = [SelectIdEqId (generateConsistentUUID [] (js ''user-123'')),
        SelectIdEqEmail (js ''ada@example.org'')]"
proof -
  have "js ''user-123'' \<noteq> generateConsistentUUID [] (js ''user-123'')"
    unfolding generateConsistentUUID_user_123 by (simp add: js_def)
  then show ?thesis
    by (simp add: resolver_defs recording_client_def Let_def)
qed

text \<open>
  C4, as amended. When both lookups resolve without a record, the resolver of
  \<open>src/utils/userUtils.ts\<close> calls the database function with the external id and the
  attributes. If the call throws, or resolves without error and without an id (or with
  an empty one), the mapped id is returned; if it resolves without error with an id,
  that id is returned; if it resolves with an error, a record with the mapped id and
  the attributes is inserted, and the id of the inserted row is returned when the
  insert succeeds, the mapped id otherwise. The version of \<open>unnamed/part_000\<close>
  returns the mapped id without any creation.
\<close>

theorem C4_creation_branch:
  assumes "select_id_eq_id sb (generateConsistentUUID rnd c) s = (Inr response1, s1)"
    and "data response1 = None"
    and "select_id_eq_email sb e s1 = (Inr response2, s2)"
    and "data response2 = None"
    and "rpc_get_or_create_user_profile sb c f e r s2 = (reply, s3)"
    and "insert_select_id sb
           \<lparr>profile_id = generateConsistentUUID rnd c, full_name = f, email = e, role = r,
            auth_provider = js ''clerk''\<rparr> s3 = (ireply, s4)"
  shows "(reply = Inl err \<longrightarrow>
            getOrCreateUserProfile sb rnd c f e r s = (Inr (generateConsistentUUID rnd c), s3)) \<and>
         (reply = Inr response \<and> error response = None \<and> data response = Some profileId \<and>
            profileId \<noteq> [] \<longrightarrow>
            getOrCreateUserProfile sb rnd c f e r s = (Inr profileId, s3)) \<and>
         (reply = Inr response \<and> error response = None \<and>
            (data response = None \<or> data response = Some []) \<longrightarrow>
            getOrCreateUserProfile sb rnd c f e r s = (Inr (generateConsistentUUID rnd c), s3)) \<and>
         (reply = Inr response \<and> error response \<noteq> None \<and> ireply = Inr iresponse \<and>
            error iresponse = None \<and> data iresponse = Some inserted \<longrightarrow>
            getOrCreateUserProfile sb rnd c f e r s = (Inr (row_id inserted), s4)) \<and>
         (reply = Inr response \<and> error response \<noteq> None \<and>
            (ireply = Inl ierr \<or>
             ireply = Inr iresponse \<and> (error iresponse \<noteq> None \<or> data iresponse = None)) \<longrightarrow>
            getOrCreateUserProfile sb rnd c f e r s = (Inr (generateConsistentUUID rnd c), s4)) \<and>
         getOrCreateUserProfile_part_000 sb rnd c f e r s = (Inr (generateConsistentUUID rnd c), s2)"
proof -
  have look: "lookup_try sb (generateConsistentUUID rnd c) e s = (Inr None, s2)"
    using assms(1-4) by (simp add: lookup_try_def)
  then have full: "getOrCreateUserProfile sb rnd c f e r s =
      create_try_catch sb (generateConsistentUUID rnd c) c f e r s2"
    by (simp add: getOrCreateUserProfile_def)
  have part: "getOrCreateUserProfile_part_000 sb rnd c f e r s = (Inr (generateConsistentUUID rnd c), s2)"
    using look by (simp add: getOrCreateUserProfile_part_000_def)
  show ?thesis
    unfolding full
    using assms(5,6) part
    by (auto simp: create_try_catch_def create_try_def insert_try_def split: option.splits)
qed

text \<open>
  One run for each outcome of the creation step, with fixed replies of the client, and
  a run against the empty in-memory store with a failing database function, where the
  direct insert creates the record under the mapped id.
\<close>

theorem C4_creation_branch_witness:
  "getOrCreateUserProfile
      (stub_client (Inr \<lparr>data = None, error = None\<rparr>) (Inr \<lparr>data = None, error = None\<rparr>)
         (Inl Rejected) (Inl Rejected))
      [] (js ''user-123'') (js ''Ada'') (js ''ada@example.org'') (js ''student'') ()
     = (Inr (generateConsistentUUID [] (js ''user-123'')), ()) \<and>
   getOrCreateUserProfile
      (stub_client (Inr \<lparr>data = None, error = None\<rparr>) (Inr \<lparr>data = None, error = None\<rparr>)
         (Inr \<lparr>data = Some (js ''123e4567-e89b-42d3-a456-426614174000''), error = None\<rparr>)
         (Inl Rejected))
      [] (js ''user-123'') (js ''Ada'') (js ''ada@example.org'') (js ''student'') ()
     = (Inr (js ''123e4567-e89b-42d3-a456-426614174000''), ()) \<and>
   getOrCreateUserProfile
      (stub_client (Inr \<lparr>data = None, error = None\<rparr>) (Inr \<lparr>data = None, error = None\<rparr>)
         (Inr \<lparr>data = None, error = None\<rparr>) (Inl Rejected))
      [] (js ''user-123'') (js ''Ada'') (js ''ada@example.org'') (js ''student'') ()
     = (Inr (generateConsistentUUID [] (js ''user-123'')), ()) \<and>
   getOrCreateUserProfile
      (stub_client (Inr \<lparr>data = None, error = None\<rparr>) (Inr \<lparr>data = None, error = None\<rparr>)
         (Inr \<lparr>data = None, error = Some (PostgrestError (js ''function failed''))\<rparr>)
         (Inr \<lparr>data = Some (Row (generateConsistentUUID [] (js ''user-123''))), error = None\<rparr>))
      [] (js ''user-123'') (js ''Ada'') (js ''ada@example.org'') (js ''student'') ()
     = (Inr (generateConsistentUUID [] (js ''user-123'')), ()) \<and>
   getOrCreateUserProfile
      (stub_client (Inr \<lparr>data = None, error = None\<rparr>) (Inr \<lparr>data = None, error = None\<rparr>)
         (Inr \<lparr>data = None, error = Some (PostgrestError (js ''function failed''))\<rparr>)
         (Inr \<lparr>data = None, error = Some (PostgrestError (js ''duplicate key''))\<rparr>))
      [] (js ''user-123'') (js ''Ada'') (js ''ada@example.org'') (js ''student'') ()
     = (Inr (generateConsistentUUID [] (js ''user-123'')), ()) \<and>
   getOrCreateUserProfile_part_000
      (stub_client (Inr \<lparr>data = None, error = None\<rparr>) (Inr \<lparr>data = None, error = None\<rparr>)
         (Inl Rejected) (Inl Rejected))
      [] (js ''user-123'') (js ''Ada'') (js ''ada@example.org'') (js ''student'') ()
     = (Inr (generateConsistentUUID [] (js ''user-123'')), ()) \<and>
   getOrCreateUserProfile (memory_client RpcFails) [] (js ''user-123'') (js ''Ada'')
      (js ''ada@example.org'') (js ''student'') []
     = (Inr (js ''0275657e-0275-4275-a027-0275657e0000''),
        [\<lparr>profile_id = js ''0275657e-0275-4275-a027-0275657e0000'', full_name = js ''Ada'',
          email = js ''ada@example.org'', role = js ''student'', auth_provider = js ''clerk''\<rparr>])"
proof -
  let ?none = "\<lparr>data = None, error = None\<rparr> :: row PostgrestResponse"
  let ?failed = "\<lparr>data = None, error = Some (PostgrestError (js ''function failed''))\<rparr>
    :: jsstring PostgrestResponse"
  let ?sample = "js ''123e4567-e89b-42d3-a456-426614174000''"
  let ?u = "generateConsistentUUID [] (js ''user-123'')"
  note run = C4_creation_branch [where rnd = "[]" and c = "js ''user-123''" and f = "js ''Ada''"
      and e = "js ''ada@example.org''" and r = "js ''student''" and s = "()" and ?s1.0 = "()"
      and ?s2.0 = "()" and ?s3.0 = "()" and ?s4.0 = "()" and ?response1.0 = ?none and ?response2.0 = ?none]
  have nonempty: "?sample \<noteq> []" by (simp add: js_def)
  have a: "getOrCreateUserProfile (stub_client (Inr ?none) (Inr ?none) (Inl Rejected) (Inl Rejected))
      [] (js ''user-123'') (js ''Ada'') (js ''ada@example.org'') (js ''student'') () = (Inr ?u, ())"
    and f: "getOrCreateUserProfile_part_000 (stub_client (Inr ?none) (Inr ?none) (Inl Rejected) (Inl Rejected))
      [] (js ''user-123'') (js ''Ada'') (js ''ada@example.org'') (js ''student'') () = (Inr ?u, ())"
    using run [where sb = "stub_client (Inr ?none) (Inr ?none) (Inl Rejected) (Inl Rejected)"
        and reply = "Inl Rejected" and ireply = "Inl Rejected" and err = Rejected]
    by (simp_all add: stub_client_def)
  have b: "getOrCreateUserProfile
      (stub_client (Inr ?none) (Inr ?none) (Inr \<lparr>data = Some ?sample, error = None\<rparr>) (Inl Rejected))
      [] (js ''user-123'') (js ''Ada'') (js ''ada@example.org'') (js ''student'') () = (Inr ?sample, ())"
    using nonempty
      run [where sb = "stub_client (Inr ?none) (Inr ?none) (Inr \<lparr>data = Some ?sample, error = None\<rparr>) (Inl Rejected)"
        and reply = "Inr \<lparr>data = Some ?sample, error = None\<rparr>" and ireply = "Inl Rejected"
        and response = "\<lparr>data = Some ?sample, error = None\<rparr>" and profileId = ?sample]
    by (simp add: stub_client_def)
  have c: "getOrCreateUserProfile
      (stub_client (Inr ?none) (Inr ?none) (Inr \<lparr>data = None, error = None\<rparr>) (Inl Rejected))
      [] (js ''user-123'') (js ''Ada'') (js ''ada@example.org'') (js ''student'') () = (Inr ?u, ())"
    using run [where sb = "stub_client (Inr ?none) (Inr ?none) (Inr \<lparr>data = None, error = None\<rparr>) (Inl Rejected)"
        and reply = "Inr \<lparr>data = None, error = None\<rparr>" and ireply = "Inl Rejected"
        and response = "\<lparr>data = None, error = None\<rparr>"]
    by (simp add: stub_client_def)
  have d: "getOrCreateUserProfile
      (stub_client (Inr ?none) (Inr ?none) (Inr ?failed) (Inr \<lparr>data = Some (Row ?u), error = None\<rparr>))
      [] (js ''user-123'') (js ''Ada'') (js ''ada@example.org'') (js ''student'') () = (Inr ?u, ())"
    using run [where sb = "stub_client (Inr ?none) (Inr ?none) (Inr ?failed) (Inr \<lparr>data = Some (Row ?u), error = None\<rparr>)"
        and reply = "Inr ?failed" and ireply = "Inr \<lparr>data = Some (Row ?u), error = None\<rparr>"
        and response = ?failed and iresponse = "\<lparr>data = Some (Row ?u), error = None\<rparr>"
        and inserted = "Row ?u"]
    by (simp add: stub_client_def)
  have e: "getOrCreateUserProfile
      (stub_client (Inr ?none) (Inr ?none) (Inr ?failed)
         (Inr \<lparr>data = None, error = Some (PostgrestError (js ''duplicate key''))\<rparr>))
      [] (js ''user-123'') (js ''Ada'') (js ''ada@example.org'') (js ''student'') () = (Inr ?u, ())"
    using run [where sb = "stub_client (Inr ?none) (Inr ?none) (Inr ?failed)
            (Inr \<lparr>data = None, error = Some (PostgrestError (js ''duplicate key''))\<rparr>)"
        and reply = "Inr ?failed"
        and ireply = "Inr \<lparr>data = None, error = Some (PostgrestError (js ''duplicate key''))\<rparr>"
        and response = ?failed
        and iresponse = "\<lparr>data = None, error = Some (PostgrestError (js ''duplicate key''))\<rparr>"]
    by (simp add: stub_client_def)

  have m1: "select_id_eq_id (memory_client RpcFails) (generateConsistentUUID [] (js ''user-123'')) []
     = (Inr \<lparr>data = None, error = None\<rparr>, [])"
    by (simp add: memory_defs)
  have m2: "select_id_eq_email (memory_client RpcFails) (js ''ada@example.org'') []
     = (Inr \<lparr>data = None, error = None\<rparr>, [])"
    by (simp add: memory_defs)
  have m3: "rpc_get_or_create_user_profile (memory_client RpcFails) (js ''user-123'') (js ''Ada'')
      (js ''ada@example.org'') (js ''student'') []
     = (Inr \<lparr>data = None, error = Some (PostgrestError (js ''function failed''))\<rparr>, [])"
    by (simp add: memory_defs)
  have m4: "insert_select_id (memory_client RpcFails)
      \<lparr>profile_id = generateConsistentUUID [] (js ''user-123''), full_name = js ''Ada'',
       email = js ''ada@example.org'', role = js ''student'', auth_provider = js ''clerk''\<rparr> []
     = (Inr \<lparr>data = Some (Row (js ''0275657e-0275-4275-a027-0275657e0000'')), error = None\<rparr>,
        [\<lparr>profile_id = js ''0275657e-0275-4275-a027-0275657e0000'', full_name = js ''Ada'',
          email = js ''ada@example.org'', role = js ''student'', auth_provider = js ''clerk''\<rparr>])"
    by (simp add: memory_defs generateConsistentUUID_user_123)
  have g: "getOrCreateUserProfile (memory_client RpcFails) [] (js ''user-123'') (js ''Ada'')
      (js ''ada@example.org'') (js ''student'') []
     = (Inr (js ''0275657e-0275-4275-a027-0275657e0000''),
        [\<lparr>profile_id = js ''0275657e-0275-4275-a027-0275657e0000'', full_name = js ''Ada'',
          email = js ''ada@example.org'', role = js ''student'', auth_provider = js ''clerk''\<rparr>])"
    using C4_creation_branch [OF m1 _ m2 _ m3 m4,
        of _ "\<lparr>data = None, error = Some (PostgrestError (js ''function failed''))\<rparr>" _
          "\<lparr>data = Some (Row (js ''0275657e-0275-4275-a027-0275657e0000'')), error = None\<rparr>"
          "Row (js ''0275657e-0275-4275-a027-0275657e0000'')"]
    by simp
  from a b c d e f g show ?thesis by simp
qed

section \<open>The two versions of the resolver\<close>

lemma create_try_catch_mapped:
  assumes "creates_with_mapped_id sb"
  shows "fst (create_try_catch sb (generateConsistentUUID rnd c) c f e r s) =
         Inr (generateConsistentUUID rnd c)"
proof (cases rule: create_try_catch_cases [of sb "generateConsistentUUID rnd c" c f e r s])
  case (kept s1)
  then show ?thesis by simp
next
  case (rpc response s1 profileId)
  have "profileId = generateConsistentUUID [] c"
    using assms [unfolded creates_with_mapped_id_def] rpc(1-4) by meson
  then have "profileId = generateConsistentUUID rnd c"
    by (simp add: generateConsistentUUID_random [of "[]" c rnd])
  with rpc show ?thesis by simp
next
  case (inserted s1 response s2 found)
  have "row_id found = profile_id \<lparr>profile_id = generateConsistentUUID rnd c, full_name = f,
      email = e, role = r, auth_provider = js ''clerk''\<rparr>"
    using assms [unfolded creates_with_mapped_id_def] inserted(1-3) by meson
  with inserted show ?thesis by simp
qed

text \<open>
  C10, as amended. The two versions return the same id whenever the creation queries
  of the store hand back no id of their own: the database function returns the mapped
  id of the external id, and the insert returns the id of the row it was given. (The
  states of the store may differ: only the version with the creation step creates a
  record.)
\<close>

theorem C10_versions_agree:
  assumes "creates_with_mapped_id sb"
  shows "fst (getOrCreateUserProfile sb rnd c f e r s) =
         fst (getOrCreateUserProfile_part_000 sb rnd c f e r s)"
proof (cases rule: lookup_try_cases [of sb "generateConsistentUUID rnd c" e s])
  case (found v s1)
  then show ?thesis
    by (simp add: getOrCreateUserProfile_def getOrCreateUserProfile_part_000_def)
next
  case (none s1)
  then show ?thesis
    using create_try_catch_mapped [OF assms, of rnd c f e r s1]
    by (simp add: getOrCreateUserProfile_def getOrCreateUserProfile_part_000_def)
next
  case (threw err s1)
  then show ?thesis
    using create_try_catch_mapped [OF assms, of rnd c f e r s1]
    by (simp add: getOrCreateUserProfile_def getOrCreateUserProfile_part_000_def)
qed

text \<open>
  C10 as stated fails: when the lookups find nothing and the database function returns
  an id of its own, the version with the creation step returns that id and the other
  version returns the mapped id.
\<close>

theorem C10_versions_differ_counterexample:
  "fst (getOrCreateUserProfile
          (stub_client (Inr \<lparr>data = None, error = None\<rparr>) (Inr \<lparr>data = None, error = None\<rparr>)
             (Inr \<lparr>data = Some (js ''123e4567-e89b-42d3-a456-426614174000''), error = None\<rparr>)
             (Inl Rejected))
          [] (js ''user-123'') (js ''Ada'') (js ''ada@example.org'') (js ''student'') ())
     = Inr (js ''123e4567-e89b-42d3-a456-426614174000'') \<and>
   fst (getOrCreateUserProfile_part_000
          (stub_client (Inr \<lparr>data = None, error = None\<rparr>) (Inr \<lparr>data = None, error = None\<rparr>)
             (Inr \<lparr>data = Some (js ''123e4567-e89b-42d3-a456-426614174000''), error = None\<rparr>)
             (Inl Rejected))
          [] (js ''user-123'') (js ''Ada'') (js ''ada@example.org'') (js ''student'') ())
     = Inr (js ''0275657e-0275-4275-a027-0275657e0000'') \<and>
   js ''123e4567-e89b-42d3-a456-426614174000'' \<noteq> js ''0275657e-0275-4275-a027-0275657e0000''"
proof -
  have ne: "js ''123e4567-e89b-42d3-a456-426614174000'' \<noteq> js ''0275657e-0275-4275-a027-0275657e0000''"
    by (simp add: js_def)
  have nonempty: "js ''123e4567-e89b-42d3-a456-426614174000'' \<noteq> []"
    by (simp add: js_def)
  show ?thesis
    using ne nonempty
    by (simp add: resolver_defs stub_client_def generateConsistentUUID_user_123)
qed

lemma memory_client_creates_with_mapped_id: "creates_with_mapped_id (memory_client mode)"
  unfolding creates_with_mapped_id_def
  by (auto simp: memory_defs Let_def split: rpc_mode.splits if_splits)

text \<open>The in-memory store satisfies the condition.\<close>

theorem C10_versions_agree_witness:
  "creates_with_mapped_id (memory_client RpcCreates) \<and>
   fst (getOrCreateUserProfile (memory_client RpcCreates) [] (js ''user-123'') (js ''Ada'')
          (js ''ada@example.org'') (js ''student'') [])
   = fst (getOrCreateUserProfile_part_000 (memory_client RpcCreates) [] (js ''user-123'') (js ''Ada'')
          (js ''ada@example.org'') (js ''student'') [])"
  using C10_versions_agree [OF memory_client_creates_with_mapped_id, of RpcCreates "[]" "js ''user-123''" "js ''Ada''"
      "js ''ada@example.org''" "js ''student''" "[]"]
    memory_client_creates_with_mapped_id [of RpcCreates]
  by simp

section \<open>Idempotent resolution against the in-memory store\<close>

lemma records_with_id_distinct:
  assumes "distinct (map profile_id tab)"
  shows "records_with_id v tab = (if v \<in> set (map profile_id tab) then 1 else 0)"
  using assms unfolding records_with_id_def
proof (induction tab)
  case Nil
  then show ?case by simp
next
  case (Cons p tab)
  then show ?case by (auto simp: image_iff)
qed

lemma filter_by_id_distinct:
  assumes "distinct (map profile_id tab)"
  shows "select_id (\<lambda>p. profile_id p = u) tab =
         (if u \<in> set (map profile_id tab) then [Row u] else [])"
proof -
  have all: "\<forall>x \<in> set (select_id (\<lambda>p. profile_id p = u) tab). x = Row u"
    by (auto simp: select_id_def)
  have len: "length (select_id (\<lambda>p. profile_id p = u) tab) = records_with_id u tab"
    by (simp add: select_id_def records_with_id_def)
  show ?thesis
  proof (cases "u \<in> set (map profile_id tab)")
    case True
    with len have "length (select_id (\<lambda>p. profile_id p = u) tab) = 1"
      by (simp add: records_with_id_distinct [OF assms])
    then obtain x where x: "select_id (\<lambda>p. profile_id p = u) tab = [x]"
      by (auto simp: length_Suc_conv)
    with all have "x = Row u" by simp
    with x True show ?thesis by simp
  next
    case False
    with len have "length (select_id (\<lambda>p. profile_id p = u) tab) = 0"
      by (simp add: records_with_id_distinct [OF assms])
    with False show ?thesis by simp
  qed
qed

lemma memory_select_by_id:
  assumes "distinct (map profile_id tab)"
  shows "select_id_eq_id (memory_client mode) u tab =
         (Inr \<lparr>data = (if u \<in> set (map profile_id tab) then Some (Row u) else None), error = None\<rparr>, tab)"
  by (simp add: memory_client_def filter_by_id_distinct [OF assms] maybeSingle_def)

lemma maybeSingle_Some:
  assumes "data (maybeSingle (select_id P tab)) = Some found"
  shows "row_id found \<in> set (map profile_id tab)"
proof -
  from assms have "select_id P tab = [found]"
    by (auto simp: maybeSingle_def split: list.splits)
  then have "found \<in> set (select_id P tab)" by simp
  then show ?thesis by (auto simp: select_id_def)
qed

lemma memory_select_by_email:
  "\<exists>response. select_id_eq_email (memory_client mode) e tab = (Inr response, tab) \<and>
     (\<forall>found. data response = Some found \<longrightarrow> row_id found \<in> set (map profile_id tab))"
  using maybeSingle_Some [of "\<lambda>p. email p = e" tab]
  by (auto simp: memory_client_def)

lemma memory_lookup_try:
  assumes "distinct (map profile_id tab)"
  obtains (by_id) "u \<in> set (map profile_id tab)"
      "lookup_try (memory_client mode) u e tab = (Inr (Some u), tab)"
  | (by_email) v where "u \<notin> set (map profile_id tab)" "v \<in> set (map profile_id tab)"
      "lookup_try (memory_client mode) u e tab = (Inr (Some v), tab)"
  | (none) "u \<notin> set (map profile_id tab)"
      "lookup_try (memory_client mode) u e tab = (Inr None, tab)"
proof (cases "u \<in> set (map profile_id tab)")
  case True
  then have "lookup_try (memory_client mode) u e tab = (Inr (Some u), tab)"
    by (simp add: lookup_try_def memory_select_by_id [OF assms])
  with True show ?thesis by (rule by_id)
next
  case False
  obtain response where response:
    "select_id_eq_email (memory_client mode) e tab = (Inr response, tab)"
    "\<forall>found. data response = Some found \<longrightarrow> row_id found \<in> set (map profile_id tab)"
    using memory_select_by_email [of mode e tab] by blast
  show ?thesis
  proof (cases "data response")
    case None
    with False response(1) have "lookup_try (memory_client mode) u e tab = (Inr None, tab)"
      by (simp add: lookup_try_def memory_select_by_id [OF assms])
    with False show ?thesis by (rule none)
  next
    case (Some found)
    with False response(1)
    have "lookup_try (memory_client mode) u e tab = (Inr (Some (row_id found)), tab)"
      by (simp add: lookup_try_def memory_select_by_id [OF assms])
    moreover have "row_id found \<in> set (map profile_id tab)"
      using response(2) Some by blast
    ultimately show ?thesis using False by (intro by_email [of "row_id found"])
  qed
qed

lemma memory_create_try_catch:
  assumes "u = generateConsistentUUID rnd c" "u \<notin> set (map profile_id tab)"
  shows "create_try_catch (memory_client mode) u c f e r tab =
         (Inr u, if creation_works mode
                 then tab @ [\<lparr>profile_id = u, full_name = f, email = e, role = r,
                               auth_provider = js ''clerk''\<rparr>]
                 else tab)"
proof -
  have mapped: "generateConsistentUUID [] c = u"
    using assms(1) generateConsistentUUID_random [of "[]" c rnd] by simp
  have nonempty: "u \<noteq> []"
    using generateConsistentUUID_shape [of rnd c] assms(1) by auto
  show ?thesis
    using assms(2) mapped nonempty
    by (cases mode)
       (simp_all add: create_try_catch_def create_try_def insert_try_def memory_defs
          creation_works_def Let_def)
qed

text \<open>
  C2, as amended. Against the in-memory store with unique primary keys, two calls of
  the resolver with the same arguments return the same id, and the second call leaves
  the store as the first one left it. Afterwards exactly one record has that id if a
  lookup found a record or the creation step works (the database function creates the
  record, or it reports an error and the direct insert is tried); otherwise no record
  has it. The version of \<open>unnamed/part_000\<close> returns the same id on every call and
  never changes the store.
\<close>

theorem C2_idempotent_resolution:
  assumes "distinct (map profile_id tab)"
  shows "(\<exists>v tab1.
            getOrCreateUserProfile (memory_client mode) rnd c f e r tab = (Inr v, tab1) \<and>
            getOrCreateUserProfile (memory_client mode) rnd c f e r tab1 = (Inr v, tab1) \<and>
            records_with_id v tab1 =
              (if creation_works mode \<or> v \<in> set (map profile_id tab) then 1 else 0)) \<and>
         (\<exists>v. getOrCreateUserProfile_part_000 (memory_client mode) rnd c f e r tab = (Inr v, tab) \<and>
            records_with_id v tab = (if v \<in> set (map profile_id tab) then 1 else 0))"
proof -
  let ?u = "generateConsistentUUID rnd c"
  let ?M = "memory_client mode"
  let ?new = "\<lparr>profile_id = ?u, full_name = f, email = e, role = r, auth_provider = js ''clerk''\<rparr>"
  note count = records_with_id_distinct [OF assms]
  consider (by_id) "?u \<in> set (map profile_id tab)"
      "lookup_try ?M ?u e tab = (Inr (Some ?u), tab)"
    | (by_email) v where "?u \<notin> set (map profile_id tab)" "v \<in> set (map profile_id tab)"
      "lookup_try ?M ?u e tab = (Inr (Some v), tab)"
    | (none) "?u \<notin> set (map profile_id tab)"
      "lookup_try ?M ?u e tab = (Inr None, tab)"
    by (rule memory_lookup_try [OF assms, of ?u mode e])
  then show ?thesis
  proof cases
    case by_id
    then have "getOrCreateUserProfile ?M rnd c f e r tab = (Inr ?u, tab)"
      and "getOrCreateUserProfile_part_000 ?M rnd c f e r tab = (Inr ?u, tab)"
      by (simp_all add: getOrCreateUserProfile_def getOrCreateUserProfile_part_000_def Let_def)
    with by_id(1) count [of ?u] show ?thesis by auto
  next
    case (by_email v)
    then have "getOrCreateUserProfile ?M rnd c f e r tab = (Inr v, tab)"
      and "getOrCreateUserProfile_part_000 ?M rnd c f e r tab = (Inr v, tab)"
      by (simp_all add: getOrCreateUserProfile_def getOrCreateUserProfile_part_000_def Let_def)
    with by_email(2) count [of v] show ?thesis by auto
  next
    case none
    have part: "getOrCreateUserProfile_part_000 ?M rnd c f e r tab = (Inr ?u, tab)"
      using none by (simp add: getOrCreateUserProfile_part_000_def Let_def)
    have part_count: "records_with_id ?u tab = (if ?u \<in> set (map profile_id tab) then 1 else 0)"
      by (rule count)
    have first: "getOrCreateUserProfile ?M rnd c f e r tab =
        (Inr ?u, if creation_works mode then tab @ [?new] else tab)"
      using none memory_create_try_catch [of ?u rnd c tab mode f e r, OF refl none(1)]
      by (simp add: getOrCreateUserProfile_def Let_def)
    show ?thesis
    proof (cases "creation_works mode")
      case True
      have d: "distinct (map profile_id (tab @ [?new]))"
        using assms none(1) by simp
      have "lookup_try ?M ?u e (tab @ [?new]) = (Inr (Some ?u), tab @ [?new])"
        by (rule memory_lookup_try [OF d, of ?u mode e]) simp_all
      then have second: "getOrCreateUserProfile ?M rnd c f e r (tab @ [?new]) = (Inr ?u, tab @ [?new])"
        by (simp add: getOrCreateUserProfile_def Let_def)
      have "records_with_id ?u (tab @ [?new]) = 1"
        by (simp add: records_with_id_distinct [OF d])
      with True first second part part_count show ?thesis by auto
    next
      case False
      with first have "getOrCreateUserProfile ?M rnd c f e r tab = (Inr ?u, tab)"
        by simp
      with False none(1) part part_count show ?thesis by auto
    qed
  qed
qed

text \<open>The empty store with a failing database function: the direct insert creates the record.\<close>

theorem C2_idempotent_resolution_witness:
  "distinct (map profile_id ([] :: table)) \<and> creation_works RpcFails \<and>
   (\<exists>v tab1.
      getOrCreateUserProfile (memory_client RpcFails) [] (js ''user-123'') (js ''Ada'')
        (js ''ada@example.org'') (js ''student'') [] = (Inr v, tab1) \<and>
      getOrCreateUserProfile (memory_client RpcFails) [] (js ''user-123'') (js ''Ada'')
        (js ''ada@example.org'') (js ''student'') tab1 = (Inr v, tab1) \<and>
      records_with_id v tab1 = 1)"
proof -
  have d: "distinct (map profile_id ([] :: table))" by simp
  have w: "creation_works RpcFails" by (simp add: creation_works_def)
  from C2_idempotent_resolution [OF d, of RpcFails "[]" "js ''user-123''" "js ''Ada''" "js ''ada@example.org''" "js ''student''"] w
  show ?thesis by auto
qed

text \<open>
  C2 as stated fails: on the empty store, the version of \<open>unnamed/part_000\<close> returns
  the mapped id and creates nothing, and so does the version with the creation step
  when the database function is unavailable; no record exists afterwards.
\<close>

theorem C2_no_record_counterexample:
  "getOrCreateUserProfile_part_000 (memory_client RpcCreates) [] (js ''user-123'') (js ''Ada'')
      (js ''ada@example.org'') (js ''student'') []
     = (Inr (js ''0275657e-0275-4275-a027-0275657e0000''), []) \<and>
   getOrCreateUserProfile (memory_client RpcRejects) [] (js ''user-123'') (js ''Ada'')
      (js ''ada@example.org'') (js ''student'') []
     = (Inr (js ''0275657e-0275-4275-a027-0275657e0000''), []) \<and>
   records_with_id (js ''0275657e-0275-4275-a027-0275657e0000'') [] = 0"
  by (simp add: resolver_defs memory_defs generateConsistentUUID_user_123 records_with_id_def)

end
